theory Spec2Isabelle
  imports Complex_Main "HOL-Library.Multiset"
begin

section \<open>Values of the table\<close>

subsection \<open>float64 cells\<close>

text \<open>
  A numeric cell of a pandas column is a float64: not-a-number (the missing value), one of
  the two infinities, or a finite number. Finite numbers are modelled as reals and the
  arithmetic on them is exact: rounding, overflow to infinity and the sign of zero are not
  modelled. Comparisons are the IEEE 754 ones, which involve no rounding: every comparison
  with \<open>NaN\<close> is false.
\<close>

datatype float = NaN | NegInf | Fin real | PosInf

fun fle :: "float \<Rightarrow> float \<Rightarrow> bool" where
  "fle NaN _ = False"
| "fle _ NaN = False"
| "fle NegInf _ = True"
| "fle _ PosInf = True"
| "fle (Fin a) (Fin b) = (a \<le> b)"
| "fle (Fin a) NegInf = False"
| "fle PosInf NegInf = False"
| "fle PosInf (Fin b) = False"

fun flt :: "float \<Rightarrow> float \<Rightarrow> bool" where
  "flt NaN _ = False"
| "flt _ NaN = False"
| "flt PosInf _ = False"
| "flt _ NegInf = False"
| "flt (Fin a) (Fin b) = (a < b)"
| "flt NegInf (Fin b) = True"
| "flt NegInf PosInf = True"
| "flt (Fin a) PosInf = True"

definition fge :: "float \<Rightarrow> float \<Rightarrow> bool" where
  "fge a b = fle b a"

definition fgt :: "float \<Rightarrow> float \<Rightarrow> bool" where
  "fgt a b = flt b a"

fun fneg :: "float \<Rightarrow> float" where
  "fneg NaN = NaN"
| "fneg NegInf = PosInf"
| "fneg (Fin a) = Fin (- a)"
| "fneg PosInf = NegInf"

fun fabs :: "float \<Rightarrow> float" where
  "fabs NaN = NaN"
| "fabs NegInf = PosInf"
| "fabs (Fin a) = Fin \<bar>a\<bar>"
| "fabs PosInf = PosInf"

fun fadd :: "float \<Rightarrow> float \<Rightarrow> float" where
  "fadd NaN _ = NaN"
| "fadd _ NaN = NaN"
| "fadd PosInf NegInf = NaN"
| "fadd NegInf PosInf = NaN"
| "fadd PosInf _ = PosInf"
| "fadd _ PosInf = PosInf"
| "fadd NegInf _ = NegInf"
| "fadd _ NegInf = NegInf"
| "fadd (Fin a) (Fin b) = Fin (a + b)"

definition fsub :: "float \<Rightarrow> float \<Rightarrow> float" where
  "fsub a b = fadd a (fneg b)"

text \<open>
  The sign of a float: \<open>-1\<close>, \<open>0\<close> or \<open>1\<close>
  (\<open>0\<close> for \<open>NaN\<close>, which the callers exclude).
\<close>

fun fsign :: "float \<Rightarrow> int" where
  "fsign NaN = 0"
| "fsign NegInf = - 1"
| "fsign (Fin a) = (if a < 0 then - 1 else if a = 0 then 0 else 1)"
| "fsign PosInf = 1"

definition signed_inf :: "int \<Rightarrow> float" where
  "signed_inf s = (if s < 0 then NegInf else if s = 0 then NaN else PosInf)"

fun fmul :: "float \<Rightarrow> float \<Rightarrow> float" where
  "fmul NaN _ = NaN"
| "fmul _ NaN = NaN"
| "fmul (Fin a) (Fin b) = Fin (a * b)"
| "fmul a b = signed_inf (fsign a * fsign b)"

text \<open>
  Division as numpy does it on float64 arrays: a finite number divided by zero is an
  infinity of the dividend's sign (the zero is taken as positive), zero by zero and
  infinity by infinity are \<open>NaN\<close>, and a finite number by an infinity is zero.
\<close>

fun fdiv :: "float \<Rightarrow> float \<Rightarrow> float" where
  "fdiv NaN _ = NaN"
| "fdiv _ NaN = NaN"
| "fdiv (Fin a) (Fin b) = (if b = 0 then signed_inf (fsign (Fin a)) else Fin (a / b))"
| "fdiv (Fin a) _ = Fin 0"
| "fdiv a (Fin b) = signed_inf (fsign a * (if b < 0 then - 1 else 1))"
| "fdiv _ _ = NaN"

subsection \<open>Timestamps and times of day\<close>

text \<open>
  A cell of the \<open>Datetime\<close> column is a pandas Timestamp: the stored 64-bit count of
  nanoseconds since the epoch in UTC, and its \<open>tzinfo\<close>: none for a naive timestamp, or
  the name of the zone with the offset of that zone from UTC at that instant. Ordering,
  \<open>min\<close> and subtraction work on the stored count; \<open>.dt.time\<close> is the wall clock, i.e.
  the count shifted by the offset. The bars of a five-day window are far from the ends of
  the int64 range, so the count is an \<open>int\<close>.
\<close>

record Timestamp =
  epoch_ns :: int
  tzinfo :: "(string \<times> int) option"

definition zone :: "Timestamp \<Rightarrow> string option" where
  "zone t = map_option fst (tzinfo t)"

definition utcoffset_ns :: "Timestamp \<Rightarrow> int" where
  "utcoffset_ns t = (case tzinfo t of None \<Rightarrow> 0 | Some (_, off) \<Rightarrow> off)"

text \<open>
  A column of timestamps has a datetime dtype when its cells are all naive or all in one
  zone. \<open>pd.concat\<close> of columns that differ in this gives a column of dtype
  \<open>object\<close>.
\<close>

definition datetimelike :: "Timestamp list \<Rightarrow> bool" where
  "datetimelike ts = (case ts of [] \<Rightarrow> True | t # rest \<Rightarrow> list_all (\<lambda>u. zone u = zone t) rest)"

text \<open>A \<open>datetime.time\<close> object: naive, with microsecond resolution.\<close>

record dtime =
  hour :: int
  minute :: int
  second :: int
  microsecond :: int

definition ns_per_day :: int where
  "ns_per_day = 86400000000000"

text \<open>
  \<open>Series.dt.time\<close> on one cell: the time part of the wall clock,
  below-microsecond digits dropped.
\<close>

definition dt_time :: "Timestamp \<Rightarrow> dtime" where
  "dt_time t =
     (let us = ((epoch_ns t + utcoffset_ns t) mod ns_per_day) div 1000
      in \<lparr>hour = us div 3600000000,
          minute = (us div 60000000) mod 60,
          second = (us div 1000000) mod 60,
          microsecond = us mod 1000000\<rparr>)"

text \<open>
  \<open>a >= b\<close> on \<open>datetime.time\<close> objects compares hour, minute,
  second, microsecond in that order.
\<close>

definition time_ge :: "dtime \<Rightarrow> dtime \<Rightarrow> bool" where
  "time_ge a b =
     (hour a > hour b \<or> (hour a = hour b \<and>
       (minute a > minute b \<or> (minute a = minute b \<and>
         (second a > second b \<or> (second a = second b \<and>
            microsecond a \<ge> microsecond b))))))"

text \<open>\<open>datetime.time(10, 0)\<close>.\<close>

definition time_10_00 :: dtime where
  "time_10_00 = \<lparr>hour = 10, minute = 0, second = 0, microsecond = 0\<rparr>"

section \<open>Fetching one instrument\<close>

subsection \<open>What the provider returns\<close>

text \<open>
  \<open>yf.download\<close> returns a table indexed by the bar timestamps (the index is named
  \<open>Datetime\<close> for intraday bars), whose column labels are either a flat index of field
  names or a multi-level index of tuples: level 0 first, then the remaining levels. The
  cells are numeric already, which \<open>pd.to_numeric(..., errors="coerce")\<close> leaves unchanged.
\<close>

datatype col_index = Index "string list" | MultiIndex "(string \<times> string list) list"

record RawFrame =
  rf_index :: "Timestamp list"
  rf_columns :: col_index
  rf_data :: "float list list"

text \<open>
  Everything that ends a run early: an exception escaping the remote call (the script has
  no handler for it), a \<open>KeyError\<close> for a missing column, the \<open>TypeError\<close> of
  \<open>pd.to_numeric\<close> on a duplicated column, the \<open>ValueError\<close> and \<open>IndexError\<close> of
  the \<open>ADXIndicator\<close> constructor on a short table, the \<open>AttributeError\<close> of the
  \<open>.dt\<close> accessor on a column that has no datetime dtype, and \<open>st.error\<close> followed
  by \<open>st.stop()\<close>. The script catches none of them.
\<close>

datatype error =
  RemoteError string | KeyError string | TypeError | ValueError | IndexError | AttributeError
  | Stop string

definition ebind :: "error + 'a \<Rightarrow> ('a \<Rightarrow> error + 'b) \<Rightarrow> error + 'b" where
  "ebind m f = (case m of Inl e \<Rightarrow> Inl e | Inr x \<Rightarrow> f x)"

text \<open>The remote source: symbol, period and interval to a table, or an exception.\<close>

type_synonym provider = "string \<Rightarrow> string \<Rightarrow> string \<Rightarrow> error + RawFrame"

record Bar =
  Datetime :: Timestamp
  Open :: float
  High :: float
  Low :: float
  Close :: float
  Volume :: float
  Stock :: string

text \<open>
  The state that outlives a call: the store of \<open>@st.cache_data\<close> for \<open>fetch_data\<close>, keyed
  by the function's argument, and the log of the remote requests issued so far.
\<close>

record world =
  cache :: "string \<rightharpoonup> Bar list option"
  remote_calls :: "string list"

definition yf_download :: "provider \<Rightarrow> string \<Rightarrow> world \<Rightarrow> (error + RawFrame) \<times> world" where
  "yf_download yf symbol w =
     (yf symbol ''5d'' ''5m'', w\<lparr>remote_calls := remote_calls w @ [symbol]\<rparr>)"

text \<open>\<open>df.empty\<close>: one of the two axes has length zero.\<close>

definition df_empty :: "RawFrame \<Rightarrow> bool" where
  "df_empty df =
     (rf_index df = [] \<or>
      (case rf_columns df of Index ls \<Rightarrow> ls = [] | MultiIndex ls \<Rightarrow> ls = []))"

definition get_level_values0 :: "(string \<times> string list) list \<Rightarrow> string list" where
  "get_level_values0 ls = map fst ls"

text \<open>
  \<open>if isinstance(df.columns, pd.MultiIndex): df.columns = df.columns.get_level_values(0)\<close>
\<close>

definition flatten_columns :: "col_index \<Rightarrow> string list" where
  "flatten_columns c = (case c of MultiIndex ls \<Rightarrow> get_level_values0 ls | Index ls \<Rightarrow> ls)"

text \<open>
  \<open>pd.to_numeric(df[col], errors="coerce")\<close> on a flat index: no column of that label is a
  \<open>KeyError\<close>; several give a table, which \<open>pd.to_numeric\<close> rejects; one gives the column.
\<close>

definition getitem :: "string list \<Rightarrow> float list list \<Rightarrow> string \<Rightarrow> error + float list" where
  "getitem labels cols c =
     (case map snd (filter (\<lambda>(l, _). l = c) (zip labels cols)) of
        [] \<Rightarrow> Inl (KeyError c)
      | [x] \<Rightarrow> Inr x
      | _ \<Rightarrow> Inl TypeError)"

text \<open>
  \<open>reset_index\<close> and \<open>df["Stock"] = symbol\<close>: the rows of the
  returned table.
\<close>

definition make_bars ::
  "string \<Rightarrow> Timestamp list \<Rightarrow> float list \<Rightarrow> float list \<Rightarrow> float list \<Rightarrow> float list \<Rightarrow>
   float list \<Rightarrow> Bar list" where
  "make_bars symbol idx opn hi lo cl vol =
     map (\<lambda>(t, a, b, c, d, e).
            \<lparr>Datetime = t, Open = a, High = b, Low = c, Close = d, Volume = e, Stock = symbol\<rparr>)
         (zip idx (zip opn (zip hi (zip lo (zip cl vol)))))"

text \<open>
  The body of \<open>fetch_data\<close>; \<open>None\<close> is its \<open>return
  None\<close>.
\<close>

definition fetch_data_uncached ::
  "provider \<Rightarrow> string \<Rightarrow> world \<Rightarrow> (error + Bar list option) \<times> world" where
  "fetch_data_uncached yf symbol w =
     (case yf_download yf symbol w of
        (Inl e, w') \<Rightarrow> (Inl e, w')
      | (Inr df, w') \<Rightarrow>
          if df_empty df then (Inr None, w')
          else
            let labels = flatten_columns (rf_columns df); cols = rf_data df
            in (ebind (getitem labels cols ''Open'') (\<lambda>opn.
                ebind (getitem labels cols ''High'') (\<lambda>hi.
                ebind (getitem labels cols ''Low'') (\<lambda>lo.
                ebind (getitem labels cols ''Close'') (\<lambda>cl.
                ebind (getitem labels cols ''Volume'') (\<lambda>vol.
                  Inr (Some (make_bars symbol (rf_index df) opn hi lo cl vol))))))), w'))"

text \<open>
  \<open>fetch_data\<close> as the script calls it, under \<open>@st.cache_data\<close>: a call whose argument has
  an entry in the store returns the entry and does not run the body; otherwise the body
  runs and a returned value (not an exception) is stored under the argument. The
  decorator is given no \<open>ttl\<close> and no \<open>max_entries\<close>, and the script never calls
  \<open>fetch_data.clear()\<close> or \<open>st.cache_data.clear()\<close>.
\<close>

definition fetch_data ::
  "provider \<Rightarrow> string \<Rightarrow> world \<Rightarrow> (error + Bar list option) \<times> world" where
  "fetch_data yf symbol w =
     (case cache w symbol of
        Some r \<Rightarrow> (Inr r, w)
      | None \<Rightarrow>
          (case fetch_data_uncached yf symbol w of
             (Inl e, w') \<Rightarrow> (Inl e, w')
           | (Inr r, w') \<Rightarrow> (Inr r, w'\<lparr>cache := (cache w')(symbol \<mapsto> r)\<rparr>)))"

section \<open>Indicators\<close>

text \<open>
  The indicator formulas belong to the \<open>ta\<close> library; the script only calls them. They are
  parameters here: each takes the input columns and its window and returns a column.
  What is modelled of the library is which of its calls raise: none of the calls of
  \<open>add_indicators\<close> but the constructor of \<open>ADXIndicator\<close>.
\<close>

record ta =
  bollinger_hband :: "float list \<Rightarrow> nat \<Rightarrow> float list"
  bollinger_lband :: "float list \<Rightarrow> nat \<Rightarrow> float list"
  rsi :: "float list \<Rightarrow> nat \<Rightarrow> float list"
  williams_r :: "float list \<Rightarrow> float list \<Rightarrow> float list \<Rightarrow> nat \<Rightarrow> float list"
  adx_pos :: "float list \<Rightarrow> float list \<Rightarrow> float list \<Rightarrow> nat \<Rightarrow> float list"
  adx_neg :: "float list \<Rightarrow> float list \<Rightarrow> float list \<Rightarrow> nat \<Rightarrow> float list"
  sma_indicator :: "float list \<Rightarrow> nat \<Rightarrow> float list"

text \<open>
  A column of the library's, as a series over the \<open>n\<close> rows of the table: rows it has no
  value for are missing, values beyond the table are dropped.
\<close>

definition series :: "nat \<Rightarrow> float list \<Rightarrow> float list" where
  "series n xs = take n xs @ replicate (n - length xs) NaN"

record IRow = Bar +
  BB60 :: float
  BB105 :: float
  BB150 :: float
  RSI20 :: float
  WILLR28 :: float
  plus_DI6 :: float
  minus_DI6 :: float
  plus_DI20 :: float
  minus_DI20 :: float
  MA8 :: float

text \<open>
  \<open>ADXIndicator(high, low, close, window)\<close>: the constructor runs the computation. It
  allocates an array of \<open>len(close) - (window - 1)\<close> cells and writes cell 0. numpy
  rejects a negative size with a \<open>ValueError\<close>, and cell 0 of an array of size zero is an
  \<open>IndexError\<close>; so the constructor raises on every table of fewer rows than the window.
  On the others it returns the object whose \<open>adx_pos()\<close> and \<open>adx_neg()\<close> are the
  library's columns.
\<close>

definition ADXIndicator ::
  "ta \<Rightarrow> float list \<Rightarrow> float list \<Rightarrow> float list \<Rightarrow> nat \<Rightarrow> error + float list \<times> float list" where
  "ADXIndicator lib high low close window =
     (if length close + 1 < window then Inl ValueError
      else if length close + 1 = window then Inl IndexError
      else Inr (adx_pos lib high low close window, adx_neg lib high low close window))"

text \<open>\<open>(hband - lband) / close * 100\<close>, row by row.\<close>

definition band_width :: "float list \<Rightarrow> float list \<Rightarrow> float list \<Rightarrow> float list" where
  "band_width hband lband close =
     map (\<lambda>((h, l), c). fmul (fdiv (fsub h l) c) (Fin 100)) (zip (zip hband lband) close)"

text \<open>
  \<open>add_indicators\<close>, in the order of its lines: the three band widths, RSI and
  Williams %R, the two \<open>ADXIndicator\<close> objects (lines 73 and 74), their four columns,
  and the moving average.
\<close>

definition add_indicators :: "ta \<Rightarrow> Bar list \<Rightarrow> error + IRow list" where
  "add_indicators lib df =
     (let n = length df;
          close = map Close df; high = map High df; low = map Low df;
          bb60 = band_width (series n (bollinger_hband lib close 60))
                            (series n (bollinger_lband lib close 60)) close;
          bb105 = band_width (series n (bollinger_hband lib close 105))
                             (series n (bollinger_lband lib close 105)) close;
          bb150 = band_width (series n (bollinger_hband lib close 150))
                             (series n (bollinger_lband lib close 150)) close;
          rsi20 = series n (rsi lib close 20);
          willr28 = series n (williams_r lib high low close 28)
      in ebind (ADXIndicator lib high low close 6) (\<lambda>dmi6.
         ebind (ADXIndicator lib high low close 20) (\<lambda>dmi20.
           let pdi6 = series n (fst dmi6);
               ndi6 = series n (snd dmi6);
               pdi20 = series n (fst dmi20);
               ndi20 = series n (snd dmi20);
               ma8 = series n (sma_indicator lib close 8)
           in Inr (map (\<lambda>i. let b = df ! i in
                \<lparr>Datetime = Datetime b, Open = Open b, High = High b, Low = Low b,
                 Close = Close b, Volume = Volume b, Stock = Stock b,
                 BB60 = bb60 ! i, BB105 = bb105 ! i, BB150 = bb150 ! i,
                 RSI20 = rsi20 ! i, WILLR28 = willr28 ! i,
                 plus_DI6 = pdi6 ! i, minus_DI6 = ndi6 ! i,
                 plus_DI20 = pdi20 ! i, minus_DI20 = ndi20 ! i, MA8 = ma8 ! i\<rparr>)
              [0..<n]))))"

section \<open>The signal composer\<close>

subsection \<open>Column operations\<close>

text \<open>
  The script works on whole columns. All the columns it combines are columns of one table,
  so they share its index and the operations pair them position by position.
\<close>

definition mask_select :: "'a list \<Rightarrow> bool list \<Rightarrow> 'a list" where
  "mask_select df cond = map fst (filter snd (zip df cond))"

definition s_le :: "float list \<Rightarrow> float \<Rightarrow> bool list" where
  "s_le xs c = map (\<lambda>x. fle x c) xs"

definition s_ge :: "float list \<Rightarrow> float \<Rightarrow> bool list" where
  "s_ge xs c = map (\<lambda>x. fge x c) xs"

definition s_lt :: "float list \<Rightarrow> float \<Rightarrow> bool list" where
  "s_lt xs c = map (\<lambda>x. flt x c) xs"

definition s_and :: "bool list \<Rightarrow> bool list \<Rightarrow> bool list" where
  "s_and xs ys = map (\<lambda>(x, y). x \<and> y) (zip xs ys)"

definition s_or :: "bool list \<Rightarrow> bool list \<Rightarrow> bool list" where
  "s_or xs ys = map (\<lambda>(x, y). x \<or> y) (zip xs ys)"

definition s_not :: "bool list \<Rightarrow> bool list" where
  "s_not xs = map Not xs"

text \<open>
  \<open>Series.between(left, right)\<close>, inclusive on both sides: \<open>(s >= left)
  & (s <= right)\<close>.
\<close>

definition between :: "float list \<Rightarrow> float \<Rightarrow> float \<Rightarrow> bool list" where
  "between xs left right = s_and (s_ge xs left) (s_le xs right)"

definition s_lt2 :: "float list \<Rightarrow> float list \<Rightarrow> bool list" where
  "s_lt2 xs ys = map (\<lambda>(x, y). flt x y) (zip xs ys)"

definition s_gt2 :: "float list \<Rightarrow> float list \<Rightarrow> bool list" where
  "s_gt2 xs ys = map (\<lambda>(x, y). fgt x y) (zip xs ys)"

definition s_sub :: "float list \<Rightarrow> float list \<Rightarrow> float list" where
  "s_sub xs ys = map (\<lambda>(x, y). fsub x y) (zip xs ys)"

definition s_abs :: "float list \<Rightarrow> float list" where
  "s_abs xs = map fabs xs"

text \<open>
  \<open>Series.where(cond)\<close>: the value where the condition holds, missing
  (\<open>NaT\<close>) elsewhere.
\<close>

definition s_where :: "'a list \<Rightarrow> bool list \<Rightarrow> 'a option list" where
  "s_where xs cond = map (\<lambda>(x, c). if c then Some x else None) (zip xs cond)"

subsection \<open>Time filter\<close>

text \<open>
  \<open>Series.dt.time\<close>: the \<open>.dt\<close> accessor exists on a column of a datetime dtype
  only; on a column of dtype \<open>object\<close> it raises an \<open>AttributeError\<close>.
\<close>

definition dt_time_col :: "Timestamp list \<Rightarrow> error + dtime list" where
  "dt_time_col ts = (if datetimelike ts then Inr (map dt_time ts) else Inl AttributeError)"

text \<open>
  \<open>df["Time"] = df["Datetime"].dt.time\<close> (line 103), then
  \<open>df = df[df["Time"] >= datetime.time(10, 0)]\<close> (line 104).
\<close>

definition Time_col :: "IRow list \<Rightarrow> error + dtime list" where
  "Time_col df = dt_time_col (map Datetime df)"

definition time_filter :: "IRow list \<Rightarrow> error + IRow list" where
  "time_filter df0 =
     ebind (Time_col df0) (\<lambda>tm. Inr (mask_select df0 (map (\<lambda>t. time_ge t time_10_00) tm)))"

subsection \<open>Entry and exit conditions\<close>

definition CALL_ENTRY_col :: "IRow list \<Rightarrow> bool list" where
  "CALL_ENTRY_col df =
     s_and (s_and (s_and (s_and (s_and (s_and
       (s_le (map BB60 df) (Fin 35))
       (between (map RSI20 df) (Fin 65) (Fin 100)))
       (between (map WILLR28 df) (Fin (- 20)) (Fin 0)))
       (s_ge (map plus_DI6 df) (Fin 40))) (s_le (map minus_DI6 df) (Fin 12)))
       (s_ge (map plus_DI20 df) (Fin 35))) (s_le (map minus_DI20 df) (Fin 15))"

definition PUT_ENTRY_col :: "IRow list \<Rightarrow> bool list" where
  "PUT_ENTRY_col df =
     s_and (s_and (s_and (s_and (s_and (s_and
       (s_le (map BB60 df) (Fin 35))
       (between (map RSI20 df) (Fin 1) (Fin 40)))
       (between (map WILLR28 df) (Fin (- 100)) (Fin (- 80))))
       (s_ge (map minus_DI6 df) (Fin 35))) (s_le (map plus_DI6 df) (Fin 15)))
       (s_ge (map minus_DI20 df) (Fin 30))) (s_le (map plus_DI20 df) (Fin 15))"

definition CALL_EXIT_col :: "IRow list \<Rightarrow> bool list" where
  "CALL_EXIT_col df =
     s_or (s_lt (s_abs (s_sub (map plus_DI20 df) (map minus_DI20 df))) (Fin 10))
          (s_lt2 (map Close df) (map MA8 df))"

definition PUT_EXIT_col :: "IRow list \<Rightarrow> bool list" where
  "PUT_EXIT_col df =
     s_or (s_lt (s_abs (s_sub (map plus_DI20 df) (map minus_DI20 df))) (Fin 10))
          (s_gt2 (map Close df) (map MA8 df))"

subsection \<open>Entry time and duration\<close>

text \<open>
  \<open>df["Entry_Time"] = df["Datetime"].where(df["CALL_ENTRY"] |
  df["PUT_ENTRY"])\<close>
\<close>

definition Entry_Time_col :: "IRow list \<Rightarrow> bool list \<Rightarrow> bool list \<Rightarrow> Timestamp option list" where
  "Entry_Time_col df call_entry put_entry = s_where (map Datetime df) (s_or call_entry put_entry)"

text \<open>
  \<open>x.min()\<close> of a datetime series skips the missing cells and is missing when
  all are.
\<close>

fun series_min :: "Timestamp option list \<Rightarrow> Timestamp option" where
  "series_min [] = None"
| "series_min (None # xs) = series_min xs"
| "series_min (Some t # xs) =
     (case series_min xs of
        None \<Rightarrow> Some t
      | Some m \<Rightarrow> if epoch_ns t \<le> epoch_ns m then Some t else Some m)"

text \<open>A Timedelta in nanoseconds, missing when either side is.\<close>

definition ts_sub :: "Timestamp option \<Rightarrow> Timestamp option \<Rightarrow> int option" where
  "ts_sub a b =
     (case a of None \<Rightarrow> None
      | Some s \<Rightarrow> (case b of None \<Rightarrow> None | Some t \<Rightarrow> Some (epoch_ns s - epoch_ns t)))"

definition total_seconds :: "int option \<Rightarrow> float" where
  "total_seconds d = (case d of None \<Rightarrow> NaN | Some n \<Rightarrow> Fin (real_of_int n / 1000000000))"

text \<open>\<open>lambda x: (x - x.min()).dt.total_seconds() / 60\<close>\<close>

definition duration_lambda :: "Timestamp option list \<Rightarrow> float list" where
  "duration_lambda x =
     map (\<lambda>s. fdiv s (Fin 60)) (map total_seconds (map (\<lambda>e. ts_sub e (series_min x)) x))"

text \<open>
  \<open>df.groupby(key)[col].transform(f)\<close>: the rows are split by key, \<open>f\<close> maps the column of
  each group to a column as long, and each row receives its own position of its group's
  result.
\<close>

definition group_positions :: "'k list \<Rightarrow> 'k \<Rightarrow> nat list" where
  "group_positions keys k = filter (\<lambda>j. keys ! j = k) [0..<length keys]"

definition groupby_transform :: "'k list \<Rightarrow> 'a list \<Rightarrow> ('a list \<Rightarrow> 'b list) \<Rightarrow> 'b list" where
  "groupby_transform keys col f =
     map (\<lambda>i. f (map (\<lambda>j. col ! j) (group_positions keys (keys ! i)))
              ! length (filter (\<lambda>j. keys ! j = keys ! i) [0..<i]))
         [0..<length keys]"

definition Duration_Min_col :: "string list \<Rightarrow> Timestamp option list \<Rightarrow> float list" where
  "Duration_Min_col stock entry_time = groupby_transform stock entry_time duration_lambda"

subsection \<open>The composed table\<close>

record SRow = IRow +
  Time :: dtime
  CALL_ENTRY :: bool
  PUT_ENTRY :: bool
  CALL_EXIT :: bool
  PUT_EXIT :: bool
  Entry_Time :: "Timestamp option"
  Duration_Min :: float

definition signal_row ::
  "IRow \<Rightarrow> dtime \<Rightarrow> bool \<Rightarrow> bool \<Rightarrow> bool \<Rightarrow> bool \<Rightarrow> Timestamp option \<Rightarrow> float \<Rightarrow> SRow" where
  "signal_row r t ce pe cx px et du =
     \<lparr>Datetime = Datetime r, Open = Open r, High = High r, Low = Low r,
      Close = Close r, Volume = Volume r, Stock = Stock r,
      BB60 = BB60 r, BB105 = BB105 r, BB150 = BB150 r,
      RSI20 = RSI20 r, WILLR28 = WILLR28 r,
      plus_DI6 = plus_DI6 r, minus_DI6 = minus_DI6 r,
      plus_DI20 = plus_DI20 r, minus_DI20 = minus_DI20 r, MA8 = MA8 r,
      Time = t, CALL_ENTRY = ce, PUT_ENTRY = pe, CALL_EXIT = cx, PUT_EXIT = px,
      Entry_Time = et, Duration_Min = du\<rparr>"

text \<open>
  Lines 103 to 148 of the script, from the concatenated table to the composed one, or the
  exception of line 103. Each bound name is the column the script assigns under that
  name; the \<open>Time\<close> column of the filtered table holds the cells that line 103
  computed for the rows kept.
\<close>

definition signal_composer :: "IRow list \<Rightarrow> error + SRow list" where
  "signal_composer df0 =
     ebind (time_filter df0) (\<lambda>df.
       let tm = map (\<lambda>r. dt_time (Datetime r)) df;
           call_entry = CALL_ENTRY_col df;
           put_entry = PUT_ENTRY_col df;
           call_exit = CALL_EXIT_col df;
           put_exit = PUT_EXIT_col df;
           entry_time = Entry_Time_col df call_entry put_entry;
           duration_min = Duration_Min_col (map Stock df) entry_time
       in Inr (map (\<lambda>i. signal_row (df ! i) (tm ! i) (call_entry ! i) (put_entry ! i)
                          (call_exit ! i) (put_exit ! i) (entry_time ! i) (duration_min ! i))
                  [0..<length df]))"

subsection \<open>The two views\<close>

text \<open>
  \<open>sort_values("BB60")\<close>: ascending, missing values last. Rows of equal key keep their
  order here; pandas' default sort promises no order among them.
\<close>

fun key_le :: "float \<Rightarrow> float \<Rightarrow> bool" where
  "key_le _ NaN = True"
| "key_le NaN _ = False"
| "key_le a b = fle a b"

fun insert_row :: "('a \<Rightarrow> float) \<Rightarrow> 'a \<Rightarrow> 'a list \<Rightarrow> 'a list" where
  "insert_row k x [] = [x]"
| "insert_row k x (y # ys) =
     (if key_le (k x) (k y) then x # y # ys else y # insert_row k x ys)"

definition sort_values :: "('a \<Rightarrow> float) \<Rightarrow> 'a list \<Rightarrow> 'a list" where
  "sort_values k xs = foldr (insert_row k) xs []"

text \<open>
  \<open>call_df = df[df["CALL_ENTRY"] & ~df["CALL_EXIT"]].sort_values("BB60")\<close>
\<close>

definition call_df :: "SRow list \<Rightarrow> SRow list" where
  "call_df df =
     sort_values BB60 (mask_select df (s_and (map CALL_ENTRY df) (s_not (map CALL_EXIT df))))"

definition put_df :: "SRow list \<Rightarrow> SRow list" where
  "put_df df =
     sort_values BB60 (mask_select df (s_and (map PUT_ENTRY df) (s_not (map PUT_EXIT df))))"

section \<open>One run of the script\<close>

text \<open>
  The loop over the instruments: \<open>frames\<close> grows by one table per instrument
  with data; an exception of \<open>fetch_data\<close> or of \<open>add_indicators\<close> ends it.
  \<open>stocks\<close> is the list \<open>load_stocks()\<close> returned; reading the file is not modelled.
\<close>

fun main_loop ::
  "provider \<Rightarrow> ta \<Rightarrow> string list \<Rightarrow> IRow list list \<Rightarrow> world \<Rightarrow>
   (error + IRow list list) \<times> world" where
  "main_loop yf lib [] frames w = (Inr frames, w)"
| "main_loop yf lib (stock # rest) frames w =
     (case fetch_data yf stock w of
        (Inl e, w') \<Rightarrow> (Inl e, w')
      | (Inr None, w') \<Rightarrow> main_loop yf lib rest frames w'
      | (Inr (Some data), w') \<Rightarrow>
          (case add_indicators lib data of
             Inl e \<Rightarrow> (Inl e, w')
           | Inr frame \<Rightarrow> main_loop yf lib rest (frames @ [frame]) w'))"

record dashboard =
  table :: "SRow list"
  call_view :: "SRow list"
  put_view :: "SRow list"

text \<open>
  One refresh cycle: the script from the loop to the two views. Streamlit runs the script
  again from the top on every trigger, in the same server process; the store of
  \<open>@st.cache_data\<close> belongs to the process, so the world a cycle starts from is the
  one the previous cycle left. \<open>Inl (Stop msg)\<close> is \<open>st.error(msg)\<close> followed by
  \<open>st.stop()\<close>.
\<close>

definition run_script :: "provider \<Rightarrow> ta \<Rightarrow> string list \<Rightarrow> world \<Rightarrow> (error + dashboard) \<times> world" where
  "run_script yf lib stocks w =
     (case main_loop yf lib stocks [] w of
        (Inl e, w') \<Rightarrow> (Inl e, w')
      | (Inr frames, w') \<Rightarrow>
          if frames = [] then (Inl (Stop ''No data fetched from Yahoo Finance''), w')
          else
            (case signal_composer (concat frames) of
               Inl e \<Rightarrow> (Inl e, w')
             | Inr df \<Rightarrow> (Inr \<lparr>table = df, call_view = call_df df, put_view = put_df df\<rparr>, w')))"

section \<open>The rules row by row\<close>

text \<open>
  The specification states the signal rules for one bar at a time. These are its rules as
  predicates of a row; the properties below compare the columns the script computes with
  them.
\<close>

definition CALL_ENTRY_rule :: "'a IRow_scheme \<Rightarrow> bool" where
  "CALL_ENTRY_rule r =
     (fle (BB60 r) (Fin 35) \<and>
      (fge (RSI20 r) (Fin 65) \<and> fle (RSI20 r) (Fin 100)) \<and>
      (fge (WILLR28 r) (Fin (- 20)) \<and> fle (WILLR28 r) (Fin 0)) \<and>
      fge (plus_DI6 r) (Fin 40) \<and> fle (minus_DI6 r) (Fin 12) \<and>
      fge (plus_DI20 r) (Fin 35) \<and> fle (minus_DI20 r) (Fin 15))"

definition PUT_ENTRY_rule :: "'a IRow_scheme \<Rightarrow> bool" where
  "PUT_ENTRY_rule r =
     (fle (BB60 r) (Fin 35) \<and>
      (fge (RSI20 r) (Fin 1) \<and> fle (RSI20 r) (Fin 40)) \<and>
      (fge (WILLR28 r) (Fin (- 100)) \<and> fle (WILLR28 r) (Fin (- 80))) \<and>
      fge (minus_DI6 r) (Fin 35) \<and> fle (plus_DI6 r) (Fin 15) \<and>
      fge (minus_DI20 r) (Fin 30) \<and> fle (plus_DI20 r) (Fin 15))"

definition CALL_EXIT_rule :: "'a IRow_scheme \<Rightarrow> bool" where
  "CALL_EXIT_rule r =
     (flt (fabs (fsub (plus_DI20 r) (minus_DI20 r))) (Fin 10) \<or> flt (Close r) (MA8 r))"

definition PUT_EXIT_rule :: "'a IRow_scheme \<Rightarrow> bool" where
  "PUT_EXIT_rule r =
     (flt (fabs (fsub (plus_DI20 r) (minus_DI20 r))) (Fin 10) \<or> fgt (Close r) (MA8 r))"

text \<open>The entry time of a row: its timestamp if one of the entry rules holds on it.\<close>

definition entry_of :: "'a IRow_scheme \<Rightarrow> Timestamp option" where
  "entry_of r = (if CALL_ENTRY_rule r \<or> PUT_ENTRY_rule r then Some (Datetime r) else None)"

text \<open>
  Minutes from the earliest entry of the column \<open>x\<close> to the entry
  \<open>e\<close>.
\<close>

definition minutes_since :: "Timestamp option list \<Rightarrow> Timestamp option \<Rightarrow> float" where
  "minutes_since x e = fdiv (total_seconds (ts_sub e (series_min x))) (Fin 60)"

text \<open>
  The row of the composed table for a row \<open>r\<close> of the filtered table
  \<open>df\<close>, by the rules above.
\<close>

definition compose_row :: "IRow list \<Rightarrow> IRow \<Rightarrow> SRow" where
  "compose_row df r =
     signal_row r (dt_time (Datetime r)) (CALL_ENTRY_rule r) (PUT_ENTRY_rule r)
       (CALL_EXIT_rule r) (PUT_EXIT_rule r) (entry_of r)
       (minutes_since (map entry_of (filter (\<lambda>r'. Stock r' = Stock r) df)) (entry_of r))"

text \<open>The rows of a table whose time of day is 10:00 or later.\<close>

definition kept_rows :: "IRow list \<Rightarrow> IRow list" where
  "kept_rows df = filter (\<lambda>r. time_ge (dt_time (Datetime r)) time_10_00) df"

text \<open>
  Nanoseconds since midnight on the wall clock of a timestamp: its time-of-day component.
\<close>

definition wall_clock_ns :: "Timestamp \<Rightarrow> int" where
  "wall_clock_ns t = (epoch_ns t + utcoffset_ns t) mod ns_per_day"

section \<open>What a call of \<open>fetch_data\<close> returns\<close>

text \<open>A server process that has just started: nothing cached, nothing requested.\<close>

definition fresh_world :: world where
  "fresh_world = \<lparr>cache = Map.empty, remote_calls = []\<rparr>"

text \<open>
  What the body of \<open>fetch_data\<close> returns for a symbol; the world plays no part
  in it.
\<close>

definition fetched :: "provider \<Rightarrow> string \<Rightarrow> error + Bar list option" where
  "fetched yf symbol = fst (fetch_data_uncached yf symbol fresh_world)"

text \<open>
  What the call \<open>fetch_data(symbol)\<close> returns in a world: the cached entry if
  there is one, else what the body returns.
\<close>

definition served :: "provider \<Rightarrow> world \<Rightarrow> string \<Rightarrow> error + Bar list option" where
  "served yf w symbol = (case cache w symbol of Some r \<Rightarrow> Inr r | None \<Rightarrow> fetched yf symbol)"

text \<open>
  The tables of the instruments of a batch that have data, in the order of the batch.
\<close>

definition batch_data :: "provider \<Rightarrow> world \<Rightarrow> string list \<Rightarrow> Bar list list" where
  "batch_data yf w stocks =
     concat (map (\<lambda>s. case served yf w s of Inr (Some d) \<Rightarrow> [d] | _ \<Rightarrow> []) stocks)"

section \<open>Sample data\<close>

text \<open>A naive timestamp: day \<open>d\<close> since the epoch at \<open>h:m:s\<close>.\<close>

definition at_clock :: "int \<Rightarrow> int \<Rightarrow> int \<Rightarrow> int \<Rightarrow> Timestamp" where
  "at_clock d h m s =
     \<lparr>epoch_ns = (((d * 24 + h) * 60 + m) * 60 + s) * 1000000000, tzinfo = None\<rparr>"

text \<open>
  A timestamp in a zone five and a half hours ahead of UTC, at \<open>h:m:s\<close> on its wall
  clock.
\<close>

definition ist_clock :: "int \<Rightarrow> int \<Rightarrow> int \<Rightarrow> int \<Rightarrow> Timestamp" where
  "ist_clock d h m s =
     \<lparr>epoch_ns = ((((d * 24 + h) * 60 + m) * 60 + s) - 19800) * 1000000000,
      tzinfo = Some (''Asia/Kolkata'', 19800 * 1000000000)\<rparr>"

text \<open>
  A row with the given indicator values: band width, RSI, Williams %R, +DI6, -DI6, +DI20,
  -DI20, close and MA8.
\<close>

definition sample_row ::
  "string \<Rightarrow> Timestamp \<Rightarrow> real \<Rightarrow> real \<Rightarrow> real \<Rightarrow> real \<Rightarrow> real \<Rightarrow> real \<Rightarrow> real \<Rightarrow> real \<Rightarrow> real \<Rightarrow> IRow" where
  "sample_row s t bb rs wr p6 n6 p20 n20 cl ma =
     \<lparr>Datetime = t, Open = Fin cl, High = Fin cl, Low = Fin cl, Close = Fin cl,
      Volume = Fin 1000, Stock = s,
      BB60 = Fin bb, BB105 = Fin bb, BB150 = Fin bb, RSI20 = Fin rs, WILLR28 = Fin wr,
      plus_DI6 = Fin p6, minus_DI6 = Fin n6, plus_DI20 = Fin p20, minus_DI20 = Fin n20,
      MA8 = Fin ma\<rparr>"

definition boundary_table :: "IRow list" where
  "boundary_table =
     [sample_row ''X'' (at_clock 0 10 0 0) 35 65 (- 20) 40 12 35 15 100 99,
      sample_row ''X'' (at_clock 0 10 5 0) (350001 / 10000) 65 (- 20) 40 12 35 15 100 99]"

text \<open>A table of naive timestamps, and one of timestamps in one zone.\<close>

definition clock_table :: "IRow list" where
  "clock_table =
     [sample_row ''X'' (at_clock 0 9 59 59) 35 65 (- 20) 40 12 35 15 100 99,
      sample_row ''X'' (at_clock 0 10 0 0) 35 65 (- 20) 40 12 35 15 100 99,
      sample_row ''X'' (at_clock 3 9 59 59) 35 65 (- 20) 40 12 35 15 100 99,
      sample_row ''X'' (at_clock 3 10 0 0) 35 65 (- 20) 40 12 35 15 100 99]"

definition ist_table :: "IRow list" where
  "ist_table =
     [sample_row ''Y'' (ist_clock 1 9 59 59) 35 65 (- 20) 40 12 35 15 100 99,
      sample_row ''Y'' (ist_clock 1 10 0 0) 35 65 (- 20) 40 12 35 15 100 99,
      sample_row ''Y'' (ist_clock 2 9 59 59) 35 65 (- 20) 40 12 35 15 100 99,
      sample_row ''Y'' (ist_clock 2 10 0 0) 35 65 (- 20) 40 12 35 15 100 99]"

definition sides_table :: "IRow list" where
  "sides_table =
     [sample_row ''X'' (at_clock 0 10 0 0) 20 70 (- 10) 45 10 40 10 101 100,
      sample_row ''X'' (at_clock 0 10 5 0) 20 30 (- 90) 10 40 10 35 99 100,
      sample_row ''X'' (at_clock 0 10 10 0) 20 50 (- 50) 20 20 20 20 100 100]"

definition missing_table :: "IRow list" where
  "missing_table =
     [(sample_row ''X'' (at_clock 0 10 0 0) 20 70 (- 10) 45 10 40 10 101 100)\<lparr>RSI20 := NaN\<rparr>,
      (sample_row ''X'' (at_clock 0 10 5 0) 20 30 (- 90) 10 40 10 35 99 100)\<lparr>BB60 := NaN\<rparr>]"

definition duration_table :: "IRow list" where
  "duration_table =
     [sample_row ''X'' (at_clock 0 9 30 0) 20 70 (- 10) 45 10 40 10 101 100,
      sample_row ''X'' (at_clock 0 10 0 0) 20 70 (- 10) 45 10 40 10 101 100,
      sample_row ''X'' (at_clock 0 10 15 0) 20 30 (- 90) 10 40 10 35 99 100,
      sample_row ''X'' (at_clock 0 10 20 0) 20 50 (- 50) 20 20 20 20 100 100,
      sample_row ''X'' (at_clock 0 10 40 0) 20 70 (- 10) 45 10 40 10 101 100,
      sample_row ''Y'' (at_clock 0 10 5 0) 20 70 (- 10) 45 10 40 10 101 100]"

text \<open>The columns of a download with \<open>auto_adjust=False\<close>.\<close>

definition field_labels :: "string list" where
  "field_labels = [''Adj Close'', ''Close'', ''High'', ''Low'', ''Open'', ''Volume'']"

text \<open>
  Twenty bars, five minutes apart from 10:00 on day 0, with the closes \<open>close_at 0\<close>,
  \<open>close_at 1\<close>, and so on.
\<close>

definition sample_series :: "(nat \<Rightarrow> real) \<Rightarrow> (Timestamp \<times> real) list" where
  "sample_series close_at = map (\<lambda>i. (at_clock 0 10 (5 * int i) 0, close_at i)) [0..<20]"

text \<open>
  A download of the given bars: the high one above and the low one below the close.
\<close>

definition sample_frame :: "col_index \<Rightarrow> (Timestamp \<times> real) list \<Rightarrow> RawFrame" where
  "sample_frame labels bars =
     \<lparr>rf_index = map fst bars, rf_columns = labels,
      rf_data = [map (\<lambda>(t, c). Fin c) bars, map (\<lambda>(t, c). Fin c) bars,
                 map (\<lambda>(t, c). Fin (c + 1)) bars, map (\<lambda>(t, c). Fin (c - 1)) bars,
                 map (\<lambda>(t, c). Fin c) bars, map (\<lambda>(t, c). Fin 1000) bars]\<rparr>"

definition empty_frame :: RawFrame where
  "empty_frame = \<lparr>rf_index = [], rf_columns = Index [], rf_data = []\<rparr>"

definition closes_A :: "nat \<Rightarrow> real" where
  "closes_A i = (if i = 1 then 99 else 101)"

text \<open>
  A provider with twenty bars for each of A, C (under a two-level column index) and E, and
  an empty table for every other symbol.
\<close>

definition sample_provider :: provider where
  "sample_provider symbol period interval =
     (if symbol = ''A'' then
        Inr (sample_frame (Index field_labels) (sample_series closes_A))
      else if symbol = ''C'' then
        Inr (sample_frame (MultiIndex (map (\<lambda>l. (l, [''C''])) field_labels))
               (sample_series (\<lambda>i. 102)))
      else if symbol = ''E'' then
        Inr (sample_frame (Index field_labels) (sample_series (\<lambda>i. 103)))
      else Inr empty_frame)"

text \<open>The sample provider, except that the request for Z raises an exception.\<close>

definition failing_provider :: provider where
  "failing_provider symbol period interval =
     (if symbol = ''Z'' then Inl (RemoteError ''connection reset'')
      else sample_provider symbol period interval)"

text \<open>The sample provider, except that S has nineteen bars.\<close>

definition short_provider :: provider where
  "short_provider symbol period interval =
     (if symbol = ''S'' then
        Inr (sample_frame (Index field_labels) (take 19 (sample_series (\<lambda>i. 104))))
      else sample_provider symbol period interval)"

text \<open>A provider that answers every symbol with the table of C under a flat index.\<close>

definition flat_provider :: provider where
  "flat_provider symbol period interval =
     Inr (sample_frame (Index field_labels) (sample_series (\<lambda>i. 102)))"

text \<open>
  An indicator library whose columns are constant, apart from the bands at one above and
  one below the close.
\<close>

definition sample_lib :: ta where
  "sample_lib =
     \<lparr>bollinger_hband = (\<lambda>close n. map (\<lambda>c. fadd c (Fin 1)) close),
      bollinger_lband = (\<lambda>close n. map (\<lambda>c. fsub c (Fin 1)) close),
      rsi = (\<lambda>close n. map (\<lambda>c. Fin 70) close),
      williams_r = (\<lambda>high low close n. map (\<lambda>c. Fin (- 10)) close),
      adx_pos = (\<lambda>high low close n. map (\<lambda>c. Fin 45) close),
      adx_neg = (\<lambda>high low close n. map (\<lambda>c. Fin 10) close),
      sma_indicator = (\<lambda>close n. map (\<lambda>c. Fin 100) close)\<rparr>"

text \<open>The bar that \<open>fetch_data\<close> makes of a row of a sample download.\<close>

definition sample_bar :: "string \<Rightarrow> Timestamp \<Rightarrow> real \<Rightarrow> Bar" where
  "sample_bar s t c =
     \<lparr>Datetime = t, Open = Fin c, High = Fin (c + 1), Low = Fin (c - 1), Close = Fin c,
      Volume = Fin 1000, Stock = s\<rparr>"

definition sample_bars :: "string \<Rightarrow> (Timestamp \<times> real) list \<Rightarrow> Bar list" where
  "sample_bars s bars = map (\<lambda>(t, c). sample_bar s t c) bars"

text \<open>The row that \<open>add_indicators\<close> makes of it with the sample library.\<close>

definition sample_irow :: "string \<Rightarrow> Timestamp \<Rightarrow> real \<Rightarrow> IRow" where
  "sample_irow s t c =
     \<lparr>Datetime = t, Open = Fin c, High = Fin (c + 1), Low = Fin (c - 1), Close = Fin c,
      Volume = Fin 1000, Stock = s,
      BB60 = Fin (2 / c * 100), BB105 = Fin (2 / c * 100), BB150 = Fin (2 / c * 100),
      RSI20 = Fin 70, WILLR28 = Fin (- 10), plus_DI6 = Fin 45, minus_DI6 = Fin 10,
      plus_DI20 = Fin 45, minus_DI20 = Fin 10, MA8 = Fin 100\<rparr>"

definition sample_irows :: "string \<Rightarrow> (Timestamp \<times> real) list \<Rightarrow> IRow list" where
  "sample_irows s bars = map (\<lambda>(t, c). sample_irow s t c) bars"

definition sample_rows_A :: "IRow list" where
  "sample_rows_A = sample_irows ''A'' (sample_series closes_A)"

section \<open>Properties\<close>

subsection \<open>Columns and rows\<close>

lemma mask_select_map: "mask_select df (map p df) = filter p df"
  unfolding mask_select_def by (induction df) auto

lemma time_filter_eq:
  "time_filter df =
     (if datetimelike (map Datetime df) then Inr (kept_rows df) else Inl AttributeError)"
  unfolding time_filter_def Time_col_def dt_time_col_def ebind_def kept_rows_def
  by (simp add: mask_select_map[symmetric] comp_def)

lemma length_cols [simp]:
  "length (s_and xs ys) = min (length xs) (length ys)"
  "length (s_or xs ys) = min (length xs) (length ys)"
  "length (s_le zs c) = length zs"
  "length (s_ge zs c) = length zs"
  "length (s_lt zs c) = length zs"
  "length (between zs a b) = length zs"
  "length (s_lt2 us vs) = min (length us) (length vs)"
  "length (s_gt2 us vs) = min (length us) (length vs)"
  "length (s_sub us vs) = min (length us) (length vs)"
  "length (s_abs zs) = length zs"
  "length (s_not xs) = length xs"
  "length (s_where ws xs) = min (length ws) (length xs)"
  by (simp_all add: s_and_def s_or_def s_le_def s_ge_def s_lt_def between_def s_lt2_def
      s_gt2_def s_sub_def s_abs_def s_not_def s_where_def)

lemma nth_s_and: "i < length xs \<Longrightarrow> i < length ys \<Longrightarrow> s_and xs ys ! i = (xs ! i \<and> ys ! i)"
  by (simp add: s_and_def)
lemma nth_s_or: "i < length xs \<Longrightarrow> i < length ys \<Longrightarrow> s_or xs ys ! i = (xs ! i \<or> ys ! i)"
  by (simp add: s_or_def)
lemma nth_s_le: "i < length xs \<Longrightarrow> s_le xs c ! i = fle (xs ! i) c" by (simp add: s_le_def)
lemma nth_s_ge: "i < length xs \<Longrightarrow> s_ge xs c ! i = fge (xs ! i) c" by (simp add: s_ge_def)
lemma nth_s_lt: "i < length xs \<Longrightarrow> s_lt xs c ! i = flt (xs ! i) c" by (simp add: s_lt_def)
lemma nth_between: "i < length xs \<Longrightarrow> between xs a b ! i = (fge (xs ! i) a \<and> fle (xs ! i) b)"
  by (simp add: between_def nth_s_and nth_s_ge nth_s_le)
lemma nth_s_lt2: "i < length xs \<Longrightarrow> i < length ys \<Longrightarrow> s_lt2 xs ys ! i = flt (xs ! i) (ys ! i)"
  by (simp add: s_lt2_def)
lemma nth_s_gt2: "i < length xs \<Longrightarrow> i < length ys \<Longrightarrow> s_gt2 xs ys ! i = fgt (xs ! i) (ys ! i)"
  by (simp add: s_gt2_def)
lemma nth_s_sub: "i < length xs \<Longrightarrow> i < length ys \<Longrightarrow> s_sub xs ys ! i = fsub (xs ! i) (ys ! i)"
  by (simp add: s_sub_def)
lemma nth_s_abs: "i < length xs \<Longrightarrow> s_abs xs ! i = fabs (xs ! i)" by (simp add: s_abs_def)
lemma nth_s_where:
  "i < length xs \<Longrightarrow> i < length cs \<Longrightarrow> s_where xs cs ! i = (if cs ! i then Some (xs ! i) else None)"
  by (simp add: s_where_def)

lemmas nth_cols = nth_s_and nth_s_or nth_s_le nth_s_ge nth_s_lt nth_between nth_s_lt2 nth_s_gt2
  nth_s_sub nth_s_abs nth_s_where

lemma length_flag_cols [simp]:
  "length (CALL_ENTRY_col df) = length df"
  "length (PUT_ENTRY_col df) = length df"
  "length (CALL_EXIT_col df) = length df"
  "length (PUT_EXIT_col df) = length df"
  by (simp_all add: CALL_ENTRY_col_def PUT_ENTRY_col_def CALL_EXIT_col_def PUT_EXIT_col_def)

lemma nth_CALL_ENTRY_col: "i < length df \<Longrightarrow> CALL_ENTRY_col df ! i = CALL_ENTRY_rule (df ! i)"
  by (simp add: CALL_ENTRY_col_def CALL_ENTRY_rule_def nth_cols)

lemma nth_PUT_ENTRY_col: "i < length df \<Longrightarrow> PUT_ENTRY_col df ! i = PUT_ENTRY_rule (df ! i)"
  by (simp add: PUT_ENTRY_col_def PUT_ENTRY_rule_def nth_cols)

lemma nth_CALL_EXIT_col: "i < length df \<Longrightarrow> CALL_EXIT_col df ! i = CALL_EXIT_rule (df ! i)"
  by (simp add: CALL_EXIT_col_def CALL_EXIT_rule_def nth_cols)

lemma nth_PUT_EXIT_col: "i < length df \<Longrightarrow> PUT_EXIT_col df ! i = PUT_EXIT_rule (df ! i)"
  by (simp add: PUT_EXIT_col_def PUT_EXIT_rule_def nth_cols)

lemma Entry_Time_col_eq:
  "Entry_Time_col df (CALL_ENTRY_col df) (PUT_ENTRY_col df) = map entry_of df"
  by (rule nth_equalityI)
     (simp_all add: Entry_Time_col_def nth_cols nth_CALL_ENTRY_col nth_PUT_ENTRY_col entry_of_def)

lemma filter_upt_rank:
  assumes "i < n" "p i"
  shows "length (filter p [0..<i]) < length (filter p [0..<n])"
    and "filter p [0..<n] ! length (filter p [0..<i]) = i"
proof -
  have "[0..<n] = [0..<i] @ [i..<n]"
    using upt_add_eq_append[of 0 i "n - i"] assms(1) by simp
  also have "[i..<n] = i # [Suc i..<n]"
    using assms(1) by (simp add: upt_conv_Cons)
  finally have "[0..<n] = [0..<i] @ i # [Suc i..<n]" .
  then have *: "filter p [0..<n] = filter p [0..<i] @ i # filter p [Suc i..<n]"
    using assms(2) by simp
  show "length (filter p [0..<i]) < length (filter p [0..<n])" unfolding * by simp
  show "filter p [0..<n] ! length (filter p [0..<i]) = i" unfolding * by (simp add: nth_append)
qed

lemma map_filter_nth:
  "map (\<lambda>j. g (xs ! j)) (filter (\<lambda>j. p (xs ! j)) [0..<length xs]) = map g (filter p xs)"
proof -
  have "map g (filter p (map (\<lambda>j. xs ! j) [0..<length xs])) = map g (filter p xs)"
    by (simp add: map_nth)
  then show ?thesis by (simp add: filter_map comp_def)
qed

lemma length_duration_lambda [simp]: "length (duration_lambda x) = length x"
  by (simp add: duration_lambda_def)

lemma nth_duration_lambda: "j < length x \<Longrightarrow> duration_lambda x ! j = minutes_since x (x ! j)"
  by (simp add: duration_lambda_def minutes_since_def)

lemma length_groupby_transform [simp]: "length (groupby_transform keys col f) = length keys"
  by (simp add: groupby_transform_def)

lemma nth_Duration_Min_col:
  assumes "i < length df"
  shows "Duration_Min_col (map Stock df) (map entry_of df) ! i =
         minutes_since (map entry_of (filter (\<lambda>r. Stock r = Stock (df ! i)) df)) (entry_of (df ! i))"
proof -
  let ?k = "Stock (df ! i)"
  let ?p = "\<lambda>j. map Stock df ! j = ?k"
  let ?P = "filter ?p [0..<length df]"
  let ?x = "map (\<lambda>j. map entry_of df ! j) ?P"
  let ?rank = "length (filter ?p [0..<i])"
  have pi: "?p i" using assms by simp
  have r1: "?rank < length ?P" and r2: "?P ! ?rank = i"
    using filter_upt_rank[OF assms, of ?p] pi by auto
  have xeq: "?x = map entry_of (filter (\<lambda>r. Stock r = ?k) df)"
  proof -
    have P: "?P = filter (\<lambda>j. Stock (df ! j) = ?k) [0..<length df]"
      by (rule filter_cong) auto
    have "?x = map (\<lambda>j. entry_of (df ! j)) ?P"
      by (rule map_cong) auto
    also have "\<dots> = map entry_of (filter (\<lambda>r. Stock r = ?k) df)"
      unfolding P by (rule map_filter_nth[of entry_of df "\<lambda>r. Stock r = ?k"])
    finally show ?thesis .
  qed
  have "Duration_Min_col (map Stock df) (map entry_of df) ! i = duration_lambda ?x ! ?rank"
    using assms by (simp add: Duration_Min_col_def groupby_transform_def group_positions_def)
  also have "\<dots> = minutes_since ?x (?x ! ?rank)"
    using r1 by (simp add: nth_duration_lambda)
  also have "?x ! ?rank = entry_of (df ! i)"
    using r1 r2 assms by simp
  finally show ?thesis by (simp only: xeq)
qed

subsection \<open>Time of day\<close>

lemma div_ge_iff: 
  fixes a k m :: int
  assumes "0 < k"
  shows "(m \<le> a div k) = (m * k \<le> a)"
proof
  assume "m \<le> a div k"
  then have "m * k \<le> a div k * k" using assms by (simp add: mult_right_mono)
  also have "a div k * k \<le> a"
    using div_mult_mod_eq[of a k] pos_mod_sign[OF assms, of a] by linarith
  finally show "m * k \<le> a" .
next
  assume "m * k \<le> a"
  then have "(m * k) div k \<le> a div k" using assms by (rule zdiv_mono1)
  then show "m \<le> a div k" using assms by simp
qed

lemma time_ge_lex:
  "0 \<le> minute a \<Longrightarrow> 0 \<le> second a \<Longrightarrow> 0 \<le> microsecond a \<Longrightarrow>
   time_ge a time_10_00 \<longleftrightarrow> 10 \<le> hour a"
  unfolding time_ge_def time_10_00_def by auto

lemma time_ge_10_iff:
  "time_ge (dt_time t) time_10_00 \<longleftrightarrow> 36000000000000 \<le> (epoch_ns t + utcoffset_ns t) mod ns_per_day"
proof -
  define n where "n = (epoch_ns t + utcoffset_ns t) mod ns_per_day"
  define us where "us = n div 1000"
  have dt: "dt_time t = \<lparr>hour = us div 3600000000, minute = (us div 60000000) mod 60,
          second = (us div 1000000) mod 60, microsecond = us mod 1000000\<rparr>"
    unfolding dt_time_def Let_def n_def us_def ..
  have "time_ge (dt_time t) time_10_00 \<longleftrightarrow> 10 \<le> hour (dt_time t)"
    by (rule time_ge_lex) (simp_all add: dt)
  also have "\<dots> \<longleftrightarrow> 10 \<le> us div 3600000000" by (simp add: dt)
  also have "\<dots> \<longleftrightarrow> 36000000000 \<le> us" by (simp add: div_ge_iff)
  also have "\<dots> \<longleftrightarrow> 36000000000000 \<le> n" unfolding us_def by (simp add: div_ge_iff)
  finally show ?thesis unfolding n_def .
qed

subsection \<open>The composed table row by row\<close>

lemma compose_rows:
  "map (\<lambda>i. signal_row (df ! i) (map (\<lambda>r. dt_time (Datetime r)) df ! i)
               (CALL_ENTRY_col df ! i) (PUT_ENTRY_col df ! i)
               (CALL_EXIT_col df ! i) (PUT_EXIT_col df ! i)
               (Entry_Time_col df (CALL_ENTRY_col df) (PUT_ENTRY_col df) ! i)
               (Duration_Min_col (map Stock df)
                  (Entry_Time_col df (CALL_ENTRY_col df) (PUT_ENTRY_col df)) ! i))
       [0..<length df] =
   map (compose_row df) df"
  by (rule nth_equalityI)
     (simp_all add: compose_row_def Entry_Time_col_eq nth_CALL_ENTRY_col nth_PUT_ENTRY_col
        nth_CALL_EXIT_col nth_PUT_EXIT_col nth_Duration_Min_col)

lemma signal_composer_rows:
  "signal_composer df0 =
     (if datetimelike (map Datetime df0)
      then Inr (map (compose_row (kept_rows df0)) (kept_rows df0))
      else Inl AttributeError)"
  by (simp add: signal_composer_def time_filter_eq ebind_def Let_def compose_rows)

lemma signal_composer_InrD:
  "signal_composer df0 = Inr T \<Longrightarrow>
     datetimelike (map Datetime df0) \<and> T = map (compose_row (kept_rows df0)) (kept_rows df0)"
  by (auto simp: signal_composer_rows split: if_splits)

lemma compose_row_fields [simp]:
  "CALL_ENTRY (compose_row df r) = CALL_ENTRY_rule r"
  "PUT_ENTRY (compose_row df r) = PUT_ENTRY_rule r"
  "CALL_EXIT (compose_row df r) = CALL_EXIT_rule r"
  "PUT_EXIT (compose_row df r) = PUT_EXIT_rule r"
  "Entry_Time (compose_row df r) = entry_of r"
  "Time (compose_row df r) = dt_time (Datetime r)"
  "Duration_Min (compose_row df r) =
     minutes_since (map entry_of (filter (\<lambda>r'. Stock r' = Stock r) df)) (entry_of r)"
  "Datetime (compose_row df r) = Datetime r"
  "Stock (compose_row df r) = Stock r"
  "Close (compose_row df r) = Close r"
  "BB60 (compose_row df r) = BB60 r"
  "RSI20 (compose_row df r) = RSI20 r"
  "WILLR28 (compose_row df r) = WILLR28 r"
  "plus_DI6 (compose_row df r) = plus_DI6 r"
  "minus_DI6 (compose_row df r) = minus_DI6 r"
  "plus_DI20 (compose_row df r) = plus_DI20 r"
  "minus_DI20 (compose_row df r) = minus_DI20 r"
  "MA8 (compose_row df r) = MA8 r"
  by (simp_all add: compose_row_def signal_row_def)

lemma rules_compose_row [simp]:
  "CALL_ENTRY_rule (compose_row df r) = CALL_ENTRY_rule r"
  "PUT_ENTRY_rule (compose_row df r) = PUT_ENTRY_rule r"
  by (simp_all add: CALL_ENTRY_rule_def PUT_ENTRY_rule_def)

lemma in_signal_composerE:
  assumes "signal_composer df0 = Inr T" "r \<in> set T"
  obtains r0 where "r0 \<in> set (kept_rows df0)" "r = compose_row (kept_rows df0) r0"
  using assms signal_composer_InrD[OF assms(1)] by auto

lemma series_min_None: "series_min x = None \<longleftrightarrow> (\<forall>e \<in> set x. e = None)"
  by (induction x rule: series_min.induct) (auto split: option.splits)

lemma series_min_Some:
  "series_min x = Some m \<Longrightarrow>
     Some m \<in> set x \<and> (\<forall>t. Some t \<in> set x \<longrightarrow> epoch_ns m \<le> epoch_ns t)"
  by (induction x arbitrary: m rule: series_min.induct)
     (auto split: option.splits if_splits simp: series_min_None)

subsection \<open>Entry rules\<close>

lemma sample_row_fields [simp]:
  "Datetime (sample_row s t bb rs wr p6 n6 p20 n20 cl ma) = t"
  "Stock (sample_row s t bb rs wr p6 n6 p20 n20 cl ma) = s"
  "Close (sample_row s t bb rs wr p6 n6 p20 n20 cl ma) = Fin cl"
  "BB60 (sample_row s t bb rs wr p6 n6 p20 n20 cl ma) = Fin bb"
  "RSI20 (sample_row s t bb rs wr p6 n6 p20 n20 cl ma) = Fin rs"
  "WILLR28 (sample_row s t bb rs wr p6 n6 p20 n20 cl ma) = Fin wr"
  "plus_DI6 (sample_row s t bb rs wr p6 n6 p20 n20 cl ma) = Fin p6"
  "minus_DI6 (sample_row s t bb rs wr p6 n6 p20 n20 cl ma) = Fin n6"
  "plus_DI20 (sample_row s t bb rs wr p6 n6 p20 n20 cl ma) = Fin p20"
  "minus_DI20 (sample_row s t bb rs wr p6 n6 p20 n20 cl ma) = Fin n20"
  "MA8 (sample_row s t bb rs wr p6 n6 p20 n20 cl ma) = Fin ma"
  by (simp_all add: sample_row_def)

text \<open>
  Claim C1. On every bar of the composed table (the bars after the time filter),
  \<open>CALL_ENTRY\<close> is true if and only if all the inclusive comparisons of the
  CALL_ENTRY rule hold on that bar's own indicators: band width 60 at most 35, RSI 20 in
  [65, 100], Williams %R 28 in [-20, 0], +DI6 at least 40, -DI6 at most 12, +DI20 at least
  35 and -DI20 at most 15. A bar with band width exactly 35 and every other condition
  exactly at an inclusive bound is a call entry; a bar with band width 35.0001 is not.
\<close>

theorem call_entry_thresholds:
  "signal_composer df0 = Inr T \<Longrightarrow> r \<in> set T \<Longrightarrow>
     (CALL_ENTRY r \<longleftrightarrow> CALL_ENTRY_rule r) \<and>
     (BB60 r = Fin 35 \<and> RSI20 r \<in> {Fin 65, Fin 100} \<and> WILLR28 r \<in> {Fin (- 20), Fin 0} \<and>
      plus_DI6 r = Fin 40 \<and> minus_DI6 r = Fin 12 \<and> plus_DI20 r = Fin 35 \<and>
      minus_DI20 r = Fin 15 \<longrightarrow> CALL_ENTRY r) \<and>
     (BB60 r = Fin (35 + 1 / 10000) \<longrightarrow> \<not> CALL_ENTRY r)"
proof -
  assume "signal_composer df0 = Inr T" "r \<in> set T"
  then obtain r0 where "r = compose_row (kept_rows df0) r0" by (rule in_signal_composerE)
  then have eq: "CALL_ENTRY r = CALL_ENTRY_rule r" by simp
  show ?thesis unfolding eq by (auto simp: CALL_ENTRY_rule_def fge_def)
qed

lemma naive_clock [simp]:
  "zone (at_clock d h m s) = None"
  "utcoffset_ns (at_clock d h m s) = 0"
  "epoch_ns (at_clock d h m s) = (((d * 24 + h) * 60 + m) * 60 + s) * 1000000000"
  by (simp_all add: zone_def utcoffset_ns_def at_clock_def)

lemma aware_clock [simp]:
  "zone (ist_clock d h m s) = Some ''Asia/Kolkata''"
  "utcoffset_ns (ist_clock d h m s) = 19800000000000"
  "epoch_ns (ist_clock d h m s) = ((((d * 24 + h) * 60 + m) * 60 + s) - 19800) * 1000000000"
  by (simp_all add: zone_def utcoffset_ns_def ist_clock_def)

lemma boundary_table_composed:
  "signal_composer boundary_table = Inr (map (compose_row boundary_table) boundary_table)"
  by (simp add: signal_composer_rows kept_rows_def time_ge_10_iff datetimelike_def
      boundary_table_def ns_per_day_def)

text \<open>The two boundary bars of claim C1, composed.\<close>

theorem call_entry_thresholds_witness:
  "\<exists>T. signal_composer boundary_table = Inr T \<and>
      T ! 0 \<in> set T \<and> T ! 1 \<in> set T \<and>
      BB60 (T ! 0) = Fin 35 \<and> CALL_ENTRY (T ! 0) \<and>
      BB60 (T ! 1) = Fin (35 + 1 / 10000) \<and> \<not> CALL_ENTRY (T ! 1)"
proof -
  let ?T = "map (compose_row boundary_table) boundary_table"
  note c = boundary_table_composed
  have m0: "?T ! 0 \<in> set ?T" and m1: "?T ! 1 \<in> set ?T"
    by (simp_all add: boundary_table_def)
  have b0: "BB60 (?T ! 0) = Fin 35" and b1: "BB60 (?T ! 1) = Fin (35 + 1 / 10000)"
    by (simp_all add: boundary_table_def)
  have "RSI20 (?T ! 0) \<in> {Fin 65, Fin 100} \<and> WILLR28 (?T ! 0) \<in> {Fin (- 20), Fin 0} \<and>
      plus_DI6 (?T ! 0) = Fin 40 \<and> minus_DI6 (?T ! 0) = Fin 12 \<and> plus_DI20 (?T ! 0) = Fin 35 \<and>
      minus_DI20 (?T ! 0) = Fin 15"
    by (simp add: boundary_table_def)
  with call_entry_thresholds[OF c m0] b0 have e0: "CALL_ENTRY (?T ! 0)" by blast
  from call_entry_thresholds[OF c m1] b1 have e1: "\<not> CALL_ENTRY (?T ! 1)" by blast
  show ?thesis by (intro exI[of _ ?T] conjI) (rule c m0 m1 b0 e0 b1 e1)+
qed

subsection \<open>Time filter\<close>

lemma kept_rows_wall_clock:
  "kept_rows df = filter (\<lambda>r. 36000000000000 \<le> wall_clock_ns (Datetime r)) df"
  by (simp add: kept_rows_def time_ge_10_iff wall_clock_ns_def)

text \<open>
  Claim C5. On a table whose timestamps are of one kind (all naive, or all in one zone),
  the time filter keeps exactly the bars whose time of day is 10:00:00 or later, whatever
  the date: the timestamps of the composed table are those of the input at or after
  10:00:00 on the wall clock, a bar at exactly 10:00:00 of any day is kept and a bar at
  09:59:59 of any day is dropped.
\<close>

theorem time_filter_from_ten:
  "datetimelike (map Datetime df0) \<Longrightarrow>
   \<exists>kept T. time_filter df0 = Inr kept \<and>
     kept = filter (\<lambda>r. 36000000000000 \<le> wall_clock_ns (Datetime r)) df0 \<and>
     signal_composer df0 = Inr T \<and>
     map Datetime T = filter (\<lambda>t. 36000000000000 \<le> wall_clock_ns t) (map Datetime df0) \<and>
     (\<forall>r d. r \<in> set df0 \<and>
        epoch_ns (Datetime r) + utcoffset_ns (Datetime r) = d * ns_per_day + 36000000000000 \<longrightarrow>
        r \<in> set kept) \<and>
     (\<forall>r d. epoch_ns (Datetime r) + utcoffset_ns (Datetime r) = d * ns_per_day + 35999000000000 \<longrightarrow>
        r \<notin> set kept)"
proof -
  assume dl: "datetimelike (map Datetime df0)"
  let ?kept = "filter (\<lambda>r. 36000000000000 \<le> wall_clock_ns (Datetime r)) df0"
  let ?T = "map (compose_row ?kept) ?kept"
  have tf: "time_filter df0 = Inr ?kept"
    using dl by (simp add: time_filter_eq kept_rows_wall_clock)
  have sc: "signal_composer df0 = Inr ?T"
    using dl by (simp add: signal_composer_rows kept_rows_wall_clock)
  have ts: "map Datetime ?T = filter (\<lambda>t. 36000000000000 \<le> wall_clock_ns t) (map Datetime df0)"
    by (simp add: filter_map comp_def)
  have inn: "\<forall>r d. r \<in> set df0 \<and>
        epoch_ns (Datetime r) + utcoffset_ns (Datetime r) = d * ns_per_day + 36000000000000 \<longrightarrow>
        r \<in> set ?kept"
    by (auto simp: wall_clock_ns_def ns_per_day_def)
  have out: "\<forall>r d. epoch_ns (Datetime r) + utcoffset_ns (Datetime r) =
        d * ns_per_day + 35999000000000 \<longrightarrow> r \<notin> set ?kept"
    by (auto simp: wall_clock_ns_def ns_per_day_def)
  show ?thesis
    by (intro exI[of _ ?kept] exI[of _ ?T] conjI) (rule tf refl sc ts inn out)+
qed

text \<open>
  A table whose timestamps are not of one kind has no composed table: line 103 raises.
\<close>

lemma mixed_table_raises: "signal_composer (clock_table @ ist_table) = Inl AttributeError"
  by (simp add: signal_composer_rows datetimelike_def clock_table_def ist_table_def)

text \<open>
  Bars at 09:59:59 and 10:00:00 of two days, once with naive timestamps and once with
  timestamps in a zone ahead of UTC.
\<close>

theorem time_filter_from_ten_witness:
  "datetimelike (map Datetime clock_table) \<and>
   time_filter clock_table = Inr [clock_table ! 1, clock_table ! 3] \<and>
   (\<exists>T. signal_composer clock_table = Inr T \<and>
        map Datetime T = [at_clock 0 10 0 0, at_clock 3 10 0 0]) \<and>
   datetimelike (map Datetime ist_table) \<and>
   time_filter ist_table = Inr [ist_table ! 1, ist_table ! 3] \<and>
   (\<exists>T. signal_composer ist_table = Inr T \<and>
        map Datetime T = [ist_clock 1 10 0 0, ist_clock 2 10 0 0])"
proof -
  have d1: "datetimelike (map Datetime clock_table)"
    by (simp add: datetimelike_def clock_table_def)
  have d2: "datetimelike (map Datetime ist_table)"
    by (simp add: datetimelike_def ist_table_def)
  have k1: "filter (\<lambda>r. 36000000000000 \<le> wall_clock_ns (Datetime r)) clock_table =
      [clock_table ! 1, clock_table ! 3]"
    by (simp add: clock_table_def wall_clock_ns_def ns_per_day_def)
  have k2: "filter (\<lambda>r. 36000000000000 \<le> wall_clock_ns (Datetime r)) ist_table =
      [ist_table ! 1, ist_table ! 3]"
    by (simp add: ist_table_def wall_clock_ns_def ns_per_day_def)
  have t1: "filter (\<lambda>t. 36000000000000 \<le> wall_clock_ns t) (map Datetime clock_table) =
      [at_clock 0 10 0 0, at_clock 3 10 0 0]"
    by (simp add: clock_table_def wall_clock_ns_def ns_per_day_def)
  have t2: "filter (\<lambda>t. 36000000000000 \<le> wall_clock_ns t) (map Datetime ist_table) =
      [ist_clock 1 10 0 0, ist_clock 2 10 0 0]"
    by (simp add: ist_table_def wall_clock_ns_def ns_per_day_def)
  from time_filter_from_ten[OF d1] obtain kept1 T1 where
    a1: "time_filter clock_table = Inr kept1"
      "kept1 = filter (\<lambda>r. 36000000000000 \<le> wall_clock_ns (Datetime r)) clock_table"
      "signal_composer clock_table = Inr T1"
      "map Datetime T1 =
         filter (\<lambda>t. 36000000000000 \<le> wall_clock_ns t) (map Datetime clock_table)"
    by auto
  from time_filter_from_ten[OF d2] obtain kept2 T2 where
    a2: "time_filter ist_table = Inr kept2"
      "kept2 = filter (\<lambda>r. 36000000000000 \<le> wall_clock_ns (Datetime r)) ist_table"
      "signal_composer ist_table = Inr T2"
      "map Datetime T2 =
         filter (\<lambda>t. 36000000000000 \<le> wall_clock_ns t) (map Datetime ist_table)"
    by auto
  have f1: "time_filter clock_table = Inr [clock_table ! 1, clock_table ! 3]"
    using a1(1,2) k1 by simp
  have c1: "\<exists>T. signal_composer clock_table = Inr T \<and>
        map Datetime T = [at_clock 0 10 0 0, at_clock 3 10 0 0]"
    using a1(3,4) t1 by simp
  have f2: "time_filter ist_table = Inr [ist_table ! 1, ist_table ! 3]"
    using a2(1,2) k2 by simp
  have c2: "\<exists>T. signal_composer ist_table = Inr T \<and>
        map Datetime T = [ist_clock 1 10 0 0, ist_clock 2 10 0 0]"
    using a2(3,4) t2 by simp
  show ?thesis by (intro conjI) (rule d1 f1 c1 d2 f2 c2)+
qed

subsection \<open>Exclusive sides and missing values\<close>

text \<open>
  Claim C3. On no bar are \<open>CALL_ENTRY\<close> and \<open>PUT_ENTRY\<close> both
  true: the two RSI ranges, the two Williams %R ranges and the two conditions on each of
  +DI6, -DI6, +DI20 and -DI20 are pairwise disjoint.
\<close>

theorem entry_flags_exclusive:
  "signal_composer df0 = Inr T \<Longrightarrow> r \<in> set T \<Longrightarrow>
     \<not> (CALL_ENTRY r \<and> PUT_ENTRY r) \<and>
     \<not> ((fge v (Fin 65) \<and> fle v (Fin 100)) \<and> (fge v (Fin 1) \<and> fle v (Fin 40))) \<and>
     \<not> ((fge v (Fin (- 20)) \<and> fle v (Fin 0)) \<and> (fge v (Fin (- 100)) \<and> fle v (Fin (- 80)))) \<and>
     \<not> (fge v (Fin 40) \<and> fle v (Fin 15)) \<and>
     \<not> (fle v (Fin 12) \<and> fge v (Fin 35)) \<and>
     \<not> (fge v (Fin 35) \<and> fle v (Fin 15)) \<and>
     \<not> (fle v (Fin 15) \<and> fge v (Fin 30))"
proof -
  assume "signal_composer df0 = Inr T" "r \<in> set T"
  then obtain r0 where r: "r = compose_row (kept_rows df0) r0" by (rule in_signal_composerE)
  have "\<not> (fge (RSI20 r0) (Fin 65) \<and> fle (RSI20 r0) (Fin 40))"
    by (cases "RSI20 r0") (simp_all add: fge_def)
  then have "\<not> (CALL_ENTRY r \<and> PUT_ENTRY r)"
    unfolding r by (auto simp: CALL_ENTRY_rule_def PUT_ENTRY_rule_def)
  then show ?thesis by (cases v) (simp_all add: fge_def)
qed

lemma sides_table_composed:
  "signal_composer sides_table = Inr (map (compose_row sides_table) sides_table)"
  by (simp add: signal_composer_rows kept_rows_def time_ge_10_iff datetimelike_def
      sides_table_def ns_per_day_def)

text \<open>A call bar, a put bar and a bar that is neither.\<close>

theorem entry_flags_exclusive_witness:
  "\<exists>T. signal_composer sides_table = Inr T \<and> T ! 0 \<in> set T \<and>
      map CALL_ENTRY T = [True, False, False] \<and>
      map PUT_ENTRY T = [False, True, False] \<and>
      \<not> (CALL_ENTRY (T ! 0) \<and> PUT_ENTRY (T ! 0))"
proof -
  let ?T = "map (compose_row sides_table) sides_table"
  note s = sides_table_composed
  have m: "?T ! 0 \<in> set ?T"
    by (simp add: sides_table_def)
  have c: "map CALL_ENTRY ?T = [True, False, False]"
    by (simp add: sides_table_def CALL_ENTRY_rule_def fge_def)
  have p: "map PUT_ENTRY ?T = [False, True, False]"
    by (simp add: sides_table_def PUT_ENTRY_rule_def fge_def)
  from entry_flags_exclusive[OF s m] have x: "\<not> (CALL_ENTRY (?T ! 0) \<and> PUT_ENTRY (?T ! 0))"
    by blast
  show ?thesis by (intro exI[of _ ?T] conjI) (rule s m c p x)+
qed

text \<open>
  Claim C4. On a bar where an indicator that the entry rules read is missing, both entry
  flags are false: every comparison with a missing value is false, on single values and on
  columns. The composer returns a row for every bar of the filtered table, and whether it
  returns a table does not depend on the indicator values: a table with the same
  timestamps is composed as well, to as many rows.
\<close>

theorem missing_indicator_false:
  "signal_composer df0 = Inr T \<Longrightarrow> r \<in> set T \<Longrightarrow>
     (BB60 r = NaN \<or> RSI20 r = NaN \<or> WILLR28 r = NaN \<or> plus_DI6 r = NaN \<or>
      minus_DI6 r = NaN \<or> plus_DI20 r = NaN \<or> minus_DI20 r = NaN \<longrightarrow>
        \<not> CALL_ENTRY r \<and> \<not> PUT_ENTRY r) \<and>
     \<not> fle NaN c \<and> \<not> fge NaN c \<and> \<not> flt NaN c \<and> \<not> fgt NaN c \<and>
     (i < length xs \<and> xs ! i = NaN \<longrightarrow>
        \<not> s_le xs c ! i \<and> \<not> s_ge xs c ! i \<and> \<not> between xs a b ! i) \<and>
     (\<exists>df. time_filter df0 = Inr df \<and> length T = length df) \<and>
     (map Datetime df1 = map Datetime df0 \<longrightarrow>
        (\<exists>T1. signal_composer df1 = Inr T1 \<and> length T1 = length T))"
proof -
  assume sc: "signal_composer df0 = Inr T" and "r \<in> set T"
  then obtain r0 where r: "r = compose_row (kept_rows df0) r0" by (rule in_signal_composerE)
  from signal_composer_InrD[OF sc] have dl: "datetimelike (map Datetime df0)"
    and T: "T = map (compose_row (kept_rows df0)) (kept_rows df0)" by auto
  have nan: "\<not> fle NaN c" "\<not> fge NaN c" "\<not> flt NaN c" "\<not> fgt NaN c" for c
    by (cases c; simp add: fge_def fgt_def)+
  have flags: "BB60 r = NaN \<or> RSI20 r = NaN \<or> WILLR28 r = NaN \<or> plus_DI6 r = NaN \<or>
      minus_DI6 r = NaN \<or> plus_DI20 r = NaN \<or> minus_DI20 r = NaN \<longrightarrow>
        \<not> CALL_ENTRY r \<and> \<not> PUT_ENTRY r"
    unfolding r using nan by (auto simp: CALL_ENTRY_rule_def PUT_ENTRY_rule_def)
  have cols: "i < length xs \<and> xs ! i = NaN \<longrightarrow>
        \<not> s_le xs c ! i \<and> \<not> s_ge xs c ! i \<and> \<not> between xs a b ! i"
    using nan by (auto simp: nth_cols)
  have len: "\<exists>df. time_filter df0 = Inr df \<and> length T = length df"
    using dl by (simp add: time_filter_eq T)
  have other: "\<exists>T1. signal_composer df1 = Inr T1 \<and> length T1 = length T"
    if eq: "map Datetime df1 = map Datetime df0"
  proof -
    have K: "map Datetime (kept_rows df) =
        filter (\<lambda>t. time_ge (dt_time t) time_10_00) (map Datetime df)" for df
      by (simp add: kept_rows_def filter_map comp_def)
    have "map Datetime (kept_rows df1) = map Datetime (kept_rows df0)"
      unfolding K eq ..
    then have "length (kept_rows df1) = length (kept_rows df0)"
      by (metis length_map)
    then show ?thesis using dl by (simp add: signal_composer_rows eq T)
  qed
  show ?thesis using flags nan cols len other by blast
qed

lemma missing_table_composed:
  "signal_composer missing_table = Inr (map (compose_row missing_table) missing_table)"
  by (simp add: signal_composer_rows kept_rows_def time_ge_10_iff datetimelike_def
      missing_table_def ns_per_day_def sample_row_def)

text \<open>
  A bar that satisfies the call rule apart from a missing RSI; the first two sample bars
  of the two sides have the same timestamps and no missing value.
\<close>

theorem missing_indicator_false_witness:
  "\<exists>T. signal_composer missing_table = Inr T \<and> T ! 0 \<in> set T \<and>
      RSI20 (T ! 0) = NaN \<and> \<not> CALL_ENTRY (T ! 0) \<and> \<not> PUT_ENTRY (T ! 0) \<and>
      0 < length [NaN, Fin 70] \<and> [NaN, Fin 70] ! 0 = NaN \<and>
      \<not> between [NaN, Fin 70] (Fin 65) (Fin 100) ! 0 \<and>
      length T = 2 \<and>
      map Datetime (take 2 sides_table) = map Datetime missing_table \<and>
      (\<exists>T1. signal_composer (take 2 sides_table) = Inr T1 \<and> length T1 = length T)"
proof -
  let ?T = "map (compose_row missing_table) missing_table"
  note s = missing_table_composed
  have m: "?T ! 0 \<in> set ?T"
    by (simp add: missing_table_def)
  have n: "RSI20 (?T ! 0) = NaN"
    by (simp add: missing_table_def sample_row_def)
  have l: "length ?T = 2"
    by (simp add: missing_table_def)
  have x: "0 < length [NaN, Fin 70]" "[NaN, Fin 70] ! 0 = NaN" by simp_all
  have d: "map Datetime (take 2 sides_table) = map Datetime missing_table"
    by (simp add: sides_table_def missing_table_def sample_row_def)
  note M = missing_indicator_false[OF s m, where i = 0 and xs = "[NaN, Fin 70]" and c = "Fin 65"
        and a = "Fin 65" and b = "Fin 100" and ?df1.0 = "take 2 sides_table"]
  from M n have f: "\<not> CALL_ENTRY (?T ! 0)" "\<not> PUT_ENTRY (?T ! 0)" by blast+
  from M x have b: "\<not> between [NaN, Fin 70] (Fin 65) (Fin 100) ! 0" by blast
  from M d have o: "\<exists>T1. signal_composer (take 2 sides_table) = Inr T1 \<and> length T1 = length ?T"
    by blast
  show ?thesis by (rule exI[of _ ?T], intro conjI) (rule s m n f x b l d o)+
qed

subsection \<open>Durations\<close>

lemma entry_of_Some: "entry_of r = Some t \<longleftrightarrow> (CALL_ENTRY_rule r \<or> PUT_ENTRY_rule r) \<and> t = Datetime r"
  by (auto simp: entry_of_def)

lemma entry_of_None: "entry_of r = None \<longleftrightarrow> \<not> (CALL_ENTRY_rule r \<or> PUT_ENTRY_rule r)"
  by (auto simp: entry_of_def)

lemma minutes_since_None: "minutes_since x None = NaN"
  by (simp add: minutes_since_def ts_sub_def total_seconds_def)

lemma minutes_since_Some:
  "series_min x = Some m \<Longrightarrow>
   minutes_since x (Some t) = Fin (real_of_int (epoch_ns t - epoch_ns m) / 1000000000 / 60)"
  by (simp add: minutes_since_def ts_sub_def total_seconds_def)

lemma group_duration:
  assumes r0: "r0 \<in> set df" and e0: "CALL_ENTRY_rule r0 \<or> PUT_ENTRY_rule r0"
  shows "\<exists>r1 \<in> set df. Stock r1 = Stock r0 \<and> (CALL_ENTRY_rule r1 \<or> PUT_ENTRY_rule r1) \<and>
           (\<forall>r' \<in> set df. Stock r' = Stock r0 \<and> (CALL_ENTRY_rule r' \<or> PUT_ENTRY_rule r') \<longrightarrow>
              epoch_ns (Datetime r1) \<le> epoch_ns (Datetime r')) \<and>
           minutes_since (map entry_of (filter (\<lambda>r'. Stock r' = Stock r0) df)) (entry_of r0) =
             Fin (real_of_int (epoch_ns (Datetime r0) - epoch_ns (Datetime r1)) / 1000000000 / 60)"
proof -
  let ?x = "map entry_of (filter (\<lambda>r'. Stock r' = Stock r0) df)"
  have "Some (Datetime r0) \<in> set ?x"
    using r0 e0 by (force simp: entry_of_def)
  then have "series_min ?x \<noteq> None" by (simp only: series_min_None) blast
  then obtain m where m: "series_min ?x = Some m" by auto
  from series_min_Some[OF m] have mem: "Some m \<in> set ?x"
    and least: "\<And>t. Some t \<in> set ?x \<Longrightarrow> epoch_ns m \<le> epoch_ns t" by auto
  from mem obtain r1 where r1: "r1 \<in> set df" "Stock r1 = Stock r0" "entry_of r1 = Some m"
    by auto
  then have r1e: "CALL_ENTRY_rule r1 \<or> PUT_ENTRY_rule r1" and mr1: "m = Datetime r1"
    by (auto simp: entry_of_Some)
  have "epoch_ns (Datetime r1) \<le> epoch_ns (Datetime r')"
    if "r' \<in> set df" "Stock r' = Stock r0" "CALL_ENTRY_rule r' \<or> PUT_ENTRY_rule r'" for r'
  proof -
    have "Some (Datetime r') \<in> set ?x" using that by (force simp: entry_of_def)
    from least[OF this] show ?thesis by (simp add: mr1)
  qed
  moreover have "minutes_since ?x (entry_of r0) =
      Fin (real_of_int (epoch_ns (Datetime r0) - epoch_ns (Datetime r1)) / 1000000000 / 60)"
    using e0 minutes_since_Some[OF m, of "Datetime r0"] by (simp add: entry_of_def mr1)
  ultimately show ?thesis using r1 r1e by blast
qed

lemma composed_duration:
  assumes sc: "signal_composer df0 = Inr T"
    and r: "r \<in> set T" and e: "CALL_ENTRY r \<or> PUT_ENTRY r"
  shows "\<exists>first \<in> set T.
           Stock first = Stock r \<and> (CALL_ENTRY first \<or> PUT_ENTRY first) \<and>
           (\<forall>r' \<in> set T.
              Stock r' = Stock r \<and> (CALL_ENTRY r' \<or> PUT_ENTRY r') \<longrightarrow>
              epoch_ns (Datetime first) \<le> epoch_ns (Datetime r')) \<and>
           Duration_Min r =
             Fin (real_of_int (epoch_ns (Datetime r) - epoch_ns (Datetime first)) / 1000000000 / 60)"
proof -
  let ?df = "kept_rows df0"
  from signal_composer_InrD[OF sc] have T: "T = map (compose_row ?df) ?df" by simp
  from sc r obtain r0 where r0: "r0 \<in> set ?df" and req: "r = compose_row ?df r0"
    by (rule in_signal_composerE)
  from e have e0: "CALL_ENTRY_rule r0 \<or> PUT_ENTRY_rule r0" by (simp add: req)
  from group_duration[OF r0 e0] obtain r1 where
    r1: "r1 \<in> set ?df" "Stock r1 = Stock r0" "CALL_ENTRY_rule r1 \<or> PUT_ENTRY_rule r1"
    and least: "\<And>r'. r' \<in> set ?df \<Longrightarrow> Stock r' = Stock r0 \<Longrightarrow>
        CALL_ENTRY_rule r' \<or> PUT_ENTRY_rule r' \<Longrightarrow> epoch_ns (Datetime r1) \<le> epoch_ns (Datetime r')"
    and dur: "minutes_since (map entry_of (filter (\<lambda>r'. Stock r' = Stock r0) ?df)) (entry_of r0) =
        Fin (real_of_int (epoch_ns (Datetime r0) - epoch_ns (Datetime r1)) / 1000000000 / 60)"
    by blast
  let ?first = "compose_row ?df r1"
  have f1: "?first \<in> set T"
    using r1(1) by (simp add: T)
  have f2: "Stock ?first = Stock r" "CALL_ENTRY ?first \<or> PUT_ENTRY ?first"
    using r1 by (simp_all add: req)
  have f3: "epoch_ns (Datetime ?first) \<le> epoch_ns (Datetime r')"
    if "r' \<in> set T" "Stock r' = Stock r" "CALL_ENTRY r' \<or> PUT_ENTRY r'" for r'
  proof -
    from sc that(1) obtain r0' where "r0' \<in> set ?df" "r' = compose_row ?df r0'"
      by (rule in_signal_composerE)
    with that(2,3) least[of r0'] show ?thesis by (simp add: req)
  qed
  have f4: "Duration_Min r =
      Fin (real_of_int (epoch_ns (Datetime r) - epoch_ns (Datetime ?first)) / 1000000000 / 60)"
    using dur by (simp add: req)
  show ?thesis using f1 f2 f3 f4 by blast
qed

lemma composed_no_entry:
  assumes sc: "signal_composer df0 = Inr T"
    and r: "r \<in> set T" and e: "\<not> (CALL_ENTRY r \<or> PUT_ENTRY r)"
  shows "Duration_Min r = NaN"
proof -
  from sc r obtain r0 where req: "r = compose_row (kept_rows df0) r0"
    by (rule in_signal_composerE)
  from e have "entry_of r0 = None" by (simp add: req entry_of_None)
  then show ?thesis by (simp add: req minutes_since_None)
qed

text \<open>
  Claim C2. On every bar on which \<open>CALL_ENTRY\<close> or \<open>PUT_ENTRY\<close>
  holds, \<open>Duration_Min\<close> is the number of minutes elapsed between that bar's
  timestamp and the timestamp of an earliest entry bar of the same instrument in the
  composed table (not the most recent entry). On a bar with neither entry flag the
  duration is missing.
\<close>

theorem duration_from_first_entry:
  "signal_composer df0 = Inr T \<Longrightarrow> r \<in> set T \<Longrightarrow>
     (if CALL_ENTRY r \<or> PUT_ENTRY r
      then \<exists>first \<in> set T.
             Stock first = Stock r \<and> (CALL_ENTRY first \<or> PUT_ENTRY first) \<and>
             (\<forall>r' \<in> set T.
                Stock r' = Stock r \<and> (CALL_ENTRY r' \<or> PUT_ENTRY r') \<longrightarrow>
                epoch_ns (Datetime first) \<le> epoch_ns (Datetime r')) \<and>
             Duration_Min r =
               Fin (real_of_int (epoch_ns (Datetime r) - epoch_ns (Datetime first))
                    / 1000000000 / 60)
      else Duration_Min r = NaN)"
  using composed_duration[of df0 T r] composed_no_entry[of df0 T r] by (simp split: if_splits)

text \<open>
  Claim C10. Wherever \<open>Duration_Min\<close> is defined it is a non-negative number,
  and it is exactly 0 on an entry bar whose timestamp is the earliest among the entry bars
  of its instrument.
\<close>

theorem duration_nonnegative:
  "signal_composer df0 = Inr T \<Longrightarrow> r \<in> set T \<Longrightarrow>
     (Duration_Min r \<noteq> NaN \<longrightarrow> (\<exists>d. Duration_Min r = Fin d \<and> 0 \<le> d)) \<and>
     ((CALL_ENTRY r \<or> PUT_ENTRY r) \<and>
      (\<forall>r' \<in> set T.
         Stock r' = Stock r \<and> (CALL_ENTRY r' \<or> PUT_ENTRY r') \<longrightarrow>
         epoch_ns (Datetime r) \<le> epoch_ns (Datetime r')) \<longrightarrow>
      Duration_Min r = Fin 0)"
proof -
  assume sc: "signal_composer df0 = Inr T" and r: "r \<in> set T"
  show ?thesis
  proof (cases "CALL_ENTRY r \<or> PUT_ENTRY r")
    case False
    with composed_no_entry[OF sc r] show ?thesis by simp
  next
    case True
    from composed_duration[OF sc r True] obtain first where
      f: "first \<in> set T" "Stock first = Stock r"
         "CALL_ENTRY first \<or> PUT_ENTRY first"
      and least: "\<And>r'. r' \<in> set T \<Longrightarrow> Stock r' = Stock r \<Longrightarrow>
         CALL_ENTRY r' \<or> PUT_ENTRY r' \<Longrightarrow> epoch_ns (Datetime first) \<le> epoch_ns (Datetime r')"
      and dur: "Duration_Min r =
         Fin (real_of_int (epoch_ns (Datetime r) - epoch_ns (Datetime first)) / 1000000000 / 60)"
      by blast
    have le: "epoch_ns (Datetime first) \<le> epoch_ns (Datetime r)"
      using least[OF r refl True] .
    then have "0 \<le> real_of_int (epoch_ns (Datetime r) - epoch_ns (Datetime first)) / 1000000000 / 60"
      by simp
    then have nonneg: "\<exists>d. Duration_Min r = Fin d \<and> 0 \<le> d"
      using dur by blast
    have zero: "Duration_Min r = Fin 0"
      if "\<forall>r' \<in> set T.
         Stock r' = Stock r \<and> (CALL_ENTRY r' \<or> PUT_ENTRY r') \<longrightarrow>
         epoch_ns (Datetime r) \<le> epoch_ns (Datetime r')"
    proof -
      from that f have "epoch_ns (Datetime r) \<le> epoch_ns (Datetime first)" by blast
      with le show ?thesis unfolding dur by simp
    qed
    show ?thesis using nonneg zero by blast
  qed
qed

lemma duration_table_composed:
  "signal_composer duration_table =
     Inr (map (compose_row (tl duration_table)) (tl duration_table))"
  by (simp add: signal_composer_rows kept_rows_def time_ge_10_iff datetimelike_def
      duration_table_def ns_per_day_def)

lemma duration_table_minutes:
  "map Duration_Min (map (compose_row (tl duration_table)) (tl duration_table)) =
     [Fin 0, Fin 15, NaN, Fin 40, Fin 0]"
  by (simp add: duration_table_def CALL_ENTRY_rule_def PUT_ENTRY_rule_def fge_def entry_of_def
      minutes_since_def ts_sub_def total_seconds_def)

text \<open>
  Entries of X at 10:00, 10:15 and 10:40, a bar of X without entry at 10:20 and an entry
  of Y: the durations are 0, 15, missing, 40 and 0. The bar of X at 09:30 satisfies the
  call rule but is outside the filtered table.
\<close>

theorem duration_from_first_entry_witness:
  "\<exists>T. signal_composer duration_table = Inr T \<and> T ! 3 \<in> set T \<and>
      (CALL_ENTRY (T ! 3) \<or> PUT_ENTRY (T ! 3)) \<and>
      (\<exists>first \<in> set T.
         Stock first = Stock (T ! 3) \<and>
         Duration_Min (T ! 3) =
           Fin (real_of_int (epoch_ns (Datetime (T ! 3)) - epoch_ns (Datetime first))
                / 1000000000 / 60)) \<and>
      map Duration_Min T = [Fin 0, Fin 15, NaN, Fin 40, Fin 0]"
proof -
  let ?T = "map (compose_row (tl duration_table)) (tl duration_table)"
  note sc = duration_table_composed
  have m: "?T ! 3 \<in> set ?T" by (rule nth_mem) (simp add: duration_table_def)
  have e: "CALL_ENTRY (?T ! 3) \<or> PUT_ENTRY (?T ! 3)"
    by (simp add: duration_table_def CALL_ENTRY_rule_def PUT_ENTRY_rule_def fge_def)
  from duration_from_first_entry[OF sc m] e
  have f: "\<exists>first \<in> set ?T. Stock first = Stock (?T ! 3) \<and>
      Duration_Min (?T ! 3) =
        Fin (real_of_int (epoch_ns (Datetime (?T ! 3)) - epoch_ns (Datetime first))
             / 1000000000 / 60)"
    by (simp only: if_True) blast
  show ?thesis
    by (rule exI[of _ ?T], intro conjI) (rule sc m e f duration_table_minutes)+
qed

text \<open>The earliest entry bar of X in the table of durations.\<close>

theorem duration_nonnegative_witness:
  "\<exists>T. signal_composer duration_table = Inr T \<and> T ! 0 \<in> set T \<and>
      (CALL_ENTRY (T ! 0) \<or> PUT_ENTRY (T ! 0)) \<and>
      Duration_Min (T ! 0) = Fin 0 \<and>
      Duration_Min (T ! 0) \<noteq> NaN \<and>
      (\<exists>d. Duration_Min (T ! 0) = Fin d \<and> 0 \<le> d)"
proof -
  let ?T = "map (compose_row (tl duration_table)) (tl duration_table)"
  note sc = duration_table_composed
  have m: "?T ! 0 \<in> set ?T" by (rule nth_mem) (simp add: duration_table_def)
  have e: "CALL_ENTRY (?T ! 0) \<or> PUT_ENTRY (?T ! 0)"
    by (simp add: duration_table_def CALL_ENTRY_rule_def PUT_ENTRY_rule_def fge_def)
  have least: "\<forall>r' \<in> set ?T. Stock r' = Stock (?T ! 0) \<and> (CALL_ENTRY r' \<or> PUT_ENTRY r') \<longrightarrow>
      epoch_ns (Datetime (?T ! 0)) \<le> epoch_ns (Datetime r')"
    by (simp add: duration_table_def)
  from duration_nonnegative[OF sc m] e least have z: "Duration_Min (?T ! 0) = Fin 0" by blast
  then have n: "Duration_Min (?T ! 0) \<noteq> NaN" by simp
  with duration_nonnegative[OF sc m] have d: "\<exists>d. Duration_Min (?T ! 0) = Fin d \<and> 0 \<le> d"
    by blast
  show ?thesis
    by (rule exI[of _ ?T], intro conjI) (rule sc m e z n d)+
qed

subsection \<open>The cache and the loop\<close>

lemma fetch_data_uncached_eq:
  "fetch_data_uncached yf s w = (fetched yf s, w\<lparr>remote_calls := remote_calls w @ [s]\<rparr>)"
  by (simp add: fetched_def fetch_data_uncached_def yf_download_def Let_def split: sum.splits)

lemma fetch_data_eq:
  "fetch_data yf s w =
     (case cache w s of
        Some r \<Rightarrow> (Inr r, w)
      | None \<Rightarrow>
          (case fetched yf s of
             Inl e \<Rightarrow> (Inl e, w\<lparr>remote_calls := remote_calls w @ [s]\<rparr>)
           | Inr r \<Rightarrow> (Inr r, w\<lparr>remote_calls := remote_calls w @ [s],
                                 cache := (cache w)(s \<mapsto> r)\<rparr>)))"
  by (simp add: fetch_data_def fetch_data_uncached_eq split: option.splits sum.splits)

lemma fst_fetch_data: "fst (fetch_data yf s w) = served yf w s"
  by (simp add: fetch_data_eq served_def split: option.splits sum.splits)

lemma served_after_fetch: "served yf (snd (fetch_data yf s w)) s' = served yf w s'"
  by (simp add: fetch_data_eq served_def split: option.splits sum.splits)

lemma cache_after_fetch:
  "cache w s' = Some r \<Longrightarrow> cache (snd (fetch_data yf s w)) s' = Some r"
  by (auto simp add: fetch_data_eq split: option.splits sum.splits)

lemma fetch_data_stores: "fetch_data yf s w = (Inr r, w') \<Longrightarrow> cache w' s = Some r"
  by (auto simp add: fetch_data_eq split: option.splits sum.splits)

lemma fetch_data_cached: "cache w s = Some r \<Longrightarrow> fetch_data yf s w = (Inr r, w)"
  by (simp add: fetch_data_eq)

lemma ADXIndicator_Inr:
  "window \<le> length close \<Longrightarrow>
   ADXIndicator lib high low close window =
     Inr (adx_pos lib high low close window, adx_neg lib high low close window)"
  by (simp add: ADXIndicator_def)

lemma add_indicators_Inr:
  "20 \<le> length df \<Longrightarrow> \<exists>frame. add_indicators lib df = Inr frame \<and> length frame = length df"
  by (simp add: add_indicators_def ADXIndicator_Inr ebind_def Let_def)

text \<open>
  An instrument with data but fewer than twenty bars ends the run in \<open>add_indicators\<close>;
  with nineteen bars it is the \<open>IndexError\<close> of line 74.
\<close>

lemma add_indicators_short:
  "length df < 20 \<Longrightarrow> \<exists>e. add_indicators lib df = Inl e"
  by (simp add: add_indicators_def ADXIndicator_def ebind_def Let_def)

lemma add_indicators_nineteen:
  "length df = 19 \<Longrightarrow> add_indicators lib df = Inl IndexError"
  by (simp add: add_indicators_def ADXIndicator_def ebind_def Let_def)

lemma main_loop_no_exception:
  assumes "\<forall>s \<in> set stocks. \<forall>e. served yf w s \<noteq> Inl e"
    and "\<forall>s \<in> set stocks. \<forall>d. served yf w s = Inr (Some d) \<longrightarrow> 20 \<le> length d"
  shows "\<exists>fs. fst (main_loop yf lib stocks frames w) = Inr (frames @ fs) \<and>
           map Inr fs = map (add_indicators lib) (batch_data yf w stocks)"
  using assms
proof (induction stocks arbitrary: frames w)
  case Nil
  then show ?case by (simp add: batch_data_def)
next
  case (Cons s rest)
  obtain res w1 where f: "fetch_data yf s w = (res, w1)" by (cases "fetch_data yf s w")
  have res: "res = served yf w s" using fst_fetch_data[of yf s w] f by simp
  have w1: "served yf w1 = served yf w"
    using served_after_fetch[of yf s w] f by (auto intro!: ext)
  have rest1: "\<forall>s \<in> set rest. \<forall>e. served yf w1 s \<noteq> Inl e"
    using Cons.prems(1) by (simp add: w1)
  have rest2: "\<forall>s \<in> set rest. \<forall>d. served yf w1 s = Inr (Some d) \<longrightarrow> 20 \<le> length d"
    using Cons.prems(2) by (simp add: w1)
  have bd: "batch_data yf w1 rest = batch_data yf w rest"
    by (simp add: batch_data_def w1)
  from Cons.prems(1) obtain r where r: "served yf w s = Inr r"
    by (cases "served yf w s") auto
  show ?case
  proof (cases r)
    case None
    from Cons.IH[OF rest1 rest2, of frames] obtain fs where
      "fst (main_loop yf lib rest frames w1) = Inr (frames @ fs)"
      "map Inr fs = map (add_indicators lib) (batch_data yf w rest)"
      unfolding bd by blast
    then show ?thesis
      using f res r None by (intro exI[of _ fs]) (simp add: batch_data_def)
  next
    case (Some d)
    then have "20 \<le> length d" using Cons.prems(2) r by simp
    then obtain frame where fr: "add_indicators lib d = Inr frame"
      using add_indicators_Inr by blast
    from Cons.IH[OF rest1 rest2, of "frames @ [frame]"] obtain fs where
      "fst (main_loop yf lib rest (frames @ [frame]) w1) = Inr ((frames @ [frame]) @ fs)"
      "map Inr fs = map (add_indicators lib) (batch_data yf w rest)"
      unfolding bd by blast
    then show ?thesis
      using f res r Some fr by (intro exI[of _ "frame # fs"]) (simp add: batch_data_def)
  qed
qed

lemma main_loop_exception:
  "s \<in> set stocks \<Longrightarrow> served yf w s = Inl e \<Longrightarrow> \<exists>e'. fst (main_loop yf lib stocks frames w) = Inl e'"
proof (induction stocks arbitrary: frames w)
  case Nil
  then show ?case by simp
next
  case (Cons s0 rest)
  obtain res w1 where f: "fetch_data yf s0 w = (res, w1)" by (cases "fetch_data yf s0 w")
  have res: "res = served yf w s0" using fst_fetch_data[of yf s0 w] f by simp
  have w1: "served yf w1 s = served yf w s"
    using served_after_fetch[of yf s0 w s] f by simp
  show ?case
  proof (cases res)
    case (Inl e0)
    then show ?thesis using f by simp
  next
    case (Inr r)
    then have "s \<noteq> s0" using res Cons.prems(2) by auto
    then have "s \<in> set rest" using Cons.prems(1) by simp
    from Cons.IH[OF this, of w1] w1 Cons.prems(2)
    have "\<exists>e'. fst (main_loop yf lib rest fr w1) = Inl e'" for fr by simp
    then show ?thesis using f Inr by (cases r) (simp_all split: sum.splits)
  qed
qed

lemma main_loop_cache_kept:
  "main_loop yf lib stocks frames w = (res, w') \<Longrightarrow> cache w s = Some r \<Longrightarrow> cache w' s = Some r"
proof (induction stocks arbitrary: frames w)
  case Nil
  then show ?case by simp
next
  case (Cons s0 rest)
  obtain res0 w1 where f: "fetch_data yf s0 w = (res0, w1)" by (cases "fetch_data yf s0 w")
  have c1: "cache w1 s = Some r" using cache_after_fetch[OF Cons.prems(2), of yf s0] f by simp
  show ?case
  proof (cases res0)
    case (Inl e0)
    then show ?thesis using f Cons.prems(1) c1 by simp
  next
    case (Inr r0)
    then show ?thesis
      using f Cons.prems(1) Cons.IH[OF _ c1] c1
      by (cases r0) (auto split: sum.splits)
  qed
qed

lemma main_loop_replay:
  "main_loop yf lib stocks frames w = (Inr fs, w') \<Longrightarrow>
   main_loop yf' lib stocks frames w' = (Inr fs, w')"
proof (induction stocks arbitrary: frames w)
  case Nil
  then show ?case by simp
next
  case (Cons s0 rest)
  obtain res0 w1 where f: "fetch_data yf s0 w = (res0, w1)" by (cases "fetch_data yf s0 w")
  show ?case
  proof (cases res0)
    case (Inl e0)
    then show ?thesis using f Cons.prems by simp
  next
    case (Inr r0)
    have c1: "cache w1 s0 = Some r0" using fetch_data_stores f Inr by blast
    obtain fr where fr: "fr = (case r0 of None \<Rightarrow> frames
        | Some d \<Rightarrow> (case add_indicators lib d of Inl e \<Rightarrow> frames | Inr frame \<Rightarrow> frames @ [frame]))"
      by simp
    have rest: "main_loop yf lib rest fr w1 = (Inr fs, w')"
      using f Inr Cons.prems fr by (cases r0) (auto split: sum.splits)
    have ok: "\<And>d e. r0 = Some d \<Longrightarrow> add_indicators lib d \<noteq> Inl e"
      using f Inr Cons.prems by (auto split: sum.splits)
    have c': "cache w' s0 = Some r0" using main_loop_cache_kept[OF rest c1] .
    have "fetch_data yf' s0 w' = (Inr r0, w')" using fetch_data_cached[OF c'] .
    then show ?thesis using Cons.IH[OF rest] fr ok by (cases r0) (auto split: sum.splits)
  qed
qed

lemma fetched_empty:
  "yf s ''5d'' ''5m'' = Inr df \<Longrightarrow> df_empty df \<Longrightarrow> fetched yf s = Inr None"
  by (simp add: fetched_def fetch_data_uncached_def yf_download_def)

lemma fetched_raises:
  "yf s ''5d'' ''5m'' = Inl e \<Longrightarrow> fetched yf s = Inl e"
  by (simp add: fetched_def fetch_data_uncached_def yf_download_def)

lemma batch_data_filter:
  "batch_data yf w (filter (\<lambda>s. served yf w s \<noteq> Inr None) stocks) = batch_data yf w stocks"
  by (induction stocks) (auto simp: batch_data_def split: sum.splits option.splits)

lemma length_batch_data:
  "\<forall>s \<in> set stocks. \<forall>e. served yf w s \<noteq> Inl e \<Longrightarrow>
   length (batch_data yf w stocks) = length (filter (\<lambda>s. served yf w s \<noteq> Inr None) stocks)"
  by (induction stocks) (auto simp: batch_data_def split: sum.splits option.splits)

lemma batch_data_Nil:
  "\<forall>s \<in> set stocks. \<forall>e. served yf w s \<noteq> Inl e \<Longrightarrow>
   batch_data yf w stocks = [] \<longleftrightarrow> (\<forall>s \<in> set stocks. served yf w s = Inr None)"
  by (induction stocks) (auto simp: batch_data_def split: sum.splits option.splits)

lemma run_script_frames:
  "fst (main_loop yf lib stocks [] w) = Inr fs \<Longrightarrow>
   fst (run_script yf lib stocks w) =
     (if fs = [] then Inl (Stop ''No data fetched from Yahoo Finance'')
      else case signal_composer (concat fs) of
             Inl e \<Rightarrow> Inl e
           | Inr df \<Rightarrow> Inr \<lparr>table = df, call_view = call_df df, put_view = put_df df\<rparr>)"
  by (cases "main_loop yf lib stocks [] w") (simp add: run_script_def split: sum.splits)

text \<open>
  Claim C7, as the script implements it. In a batch none of whose fetches raises an
  exception and in which every instrument with data has at least twenty bars (on fewer,
  the \<open>ADXIndicator\<close> constructor of \<open>add_indicators\<close> raises), an
  instrument whose fetch returns an empty result contributes no table and is dropped from
  the aggregate: the loop goes on to the remaining instruments and yields one table per
  instrument with data, and the run is the run of the batch without the empty
  instruments. When every instrument is empty the run halts with the message of
  \<open>st.error\<close>; otherwise it goes on to the signal composer on the rows of the
  instruments with data, and reaches the dashboard when their timestamps are of one kind.
\<close>

theorem empty_instrument_dropped:
  assumes "\<forall>s \<in> set stocks. \<forall>e. served yf w s \<noteq> Inl e"
    and "\<forall>s \<in> set stocks. \<forall>d. served yf w s = Inr (Some d) \<longrightarrow> 20 \<le> length d"
  shows "(cache w s = None \<and> yf s ''5d'' ''5m'' = Inr df \<and> df_empty df \<longrightarrow> served yf w s = Inr None) \<and>
     fst (main_loop yf lib stocks [] w) =
       fst (main_loop yf lib (filter (\<lambda>s. served yf w s \<noteq> Inr None) stocks) [] w) \<and>
     fst (run_script yf lib stocks w) =
       fst (run_script yf lib (filter (\<lambda>s. served yf w s \<noteq> Inr None) stocks) w) \<and>
     (\<exists>frames.
        fst (main_loop yf lib stocks [] w) = Inr frames \<and>
        map Inr frames = map (add_indicators lib) (batch_data yf w stocks) \<and>
        length frames = length (filter (\<lambda>s. served yf w s \<noteq> Inr None) stocks) \<and>
        (if \<forall>s \<in> set stocks. served yf w s = Inr None
         then fst (run_script yf lib stocks w) = Inl (Stop ''No data fetched from Yahoo Finance'')
         else fst (run_script yf lib stocks w) =
                (case signal_composer (concat frames) of
                   Inl e \<Rightarrow> Inl e
                 | Inr df \<Rightarrow> Inr \<lparr>table = df, call_view = call_df df, put_view = put_df df\<rparr>) \<and>
              (datetimelike (map Datetime (concat frames)) \<longrightarrow>
                 (\<exists>d. fst (run_script yf lib stocks w) = Inr d \<and>
                      signal_composer (concat frames) = Inr (table d)))))"
proof -
  let ?kept = "filter (\<lambda>s. served yf w s \<noteq> Inr None) stocks"
  have kept1: "\<forall>s \<in> set ?kept. \<forall>e. served yf w s \<noteq> Inl e" using assms(1) by simp
  have kept2: "\<forall>s \<in> set ?kept. \<forall>d. served yf w s = Inr (Some d) \<longrightarrow> 20 \<le> length d"
    using assms(2) by auto
  have a: "cache w s = None \<and> yf s ''5d'' ''5m'' = Inr df \<and> df_empty df \<longrightarrow> served yf w s = Inr None"
    by (simp add: served_def fetched_empty)
  from main_loop_no_exception[OF assms, of lib "[]"] obtain frames where
    fr: "fst (main_loop yf lib stocks [] w) = Inr frames"
    and en: "map Inr frames = map (add_indicators lib) (batch_data yf w stocks)"
    by auto
  from main_loop_no_exception[OF kept1 kept2, of lib "[]"] obtain frames' where
    fr': "fst (main_loop yf lib ?kept [] w) = Inr frames'"
    and en': "map Inr frames' = map (add_indicators lib) (batch_data yf w ?kept)"
    by auto
  from en en' have "map Inr frames' = (map Inr frames :: (error + IRow list) list)"
    by (simp add: batch_data_filter)
  then have same: "frames' = frames" by (simp add: inj_map_eq_map)
  have b: "fst (main_loop yf lib stocks [] w) = fst (main_loop yf lib ?kept [] w)"
    by (simp add: fr fr' same)
  have c: "fst (run_script yf lib stocks w) = fst (run_script yf lib ?kept w)"
    by (simp only: run_script_frames[OF fr] run_script_frames[OF fr'] same)
  have "length frames = length (batch_data yf w stocks)"
    using en[THEN arg_cong, of length] by simp
  then have len: "length frames = length ?kept"
    by (simp add: length_batch_data[OF assms(1)])
  have nil: "frames = [] \<longleftrightarrow> (\<forall>s \<in> set stocks. served yf w s = Inr None)"
    using en[THEN arg_cong, of length] batch_data_Nil[OF assms(1)] by auto
  have d: "if \<forall>s \<in> set stocks. served yf w s = Inr None
         then fst (run_script yf lib stocks w) = Inl (Stop ''No data fetched from Yahoo Finance'')
         else fst (run_script yf lib stocks w) =
                (case signal_composer (concat frames) of
                   Inl e \<Rightarrow> Inl e
                 | Inr df \<Rightarrow> Inr \<lparr>table = df, call_view = call_df df, put_view = put_df df\<rparr>) \<and>
              (datetimelike (map Datetime (concat frames)) \<longrightarrow>
                 (\<exists>d. fst (run_script yf lib stocks w) = Inr d \<and>
                      signal_composer (concat frames) = Inr (table d)))"
    by (simp add: run_script_frames[OF fr] nil[symmetric] signal_composer_rows)
  show ?thesis
    using a b c fr en len d by blast
qed

text \<open>
  Claim C9, as the script implements it. After a call of \<open>fetch_data\<close> that
  returned, a repeated call with the same symbol returns the cached result and leaves the
  world unchanged, so no request goes out; the entry is found under the symbol alone, the
  period and the interval being the constants of the one remote call. The script never
  invalidates the cache: entries survive the loop, and the refresh cycle following a
  completed one returns the same dashboard without a remote request, whatever the provider
  would answer by then.
\<close>

theorem cache_kept_across_cycles:
  "(fetch_data yf s w = (Inr r, w1) \<longrightarrow> fetch_data yf' s w1 = (Inr r, w1)) \<and>
   (cache w s = Some r \<longrightarrow> fetch_data yf s w = (Inr r, w)) \<and>
   fst (yf_download yf s w) = yf s ''5d'' ''5m'' \<and>
   (main_loop yf lib stocks [] w = (res, w2) \<and> cache w s = Some r \<longrightarrow> cache w2 s = Some r) \<and>
   (run_script yf lib stocks w = (Inr d, w2) \<longrightarrow> run_script yf' lib stocks w2 = (Inr d, w2))"
proof -
  have a: "fetch_data yf s w = (Inr r, w1) \<longrightarrow> fetch_data yf' s w1 = (Inr r, w1)"
    using fetch_data_stores fetch_data_cached by blast
  have b: "cache w s = Some r \<longrightarrow> fetch_data yf s w = (Inr r, w)"
    using fetch_data_cached by blast
  have c: "fst (yf_download yf s w) = yf s ''5d'' ''5m''" by (simp add: yf_download_def)
  have d: "main_loop yf lib stocks [] w = (res, w2) \<and> cache w s = Some r \<longrightarrow> cache w2 s = Some r"
    using main_loop_cache_kept by blast
  have e: "run_script yf' lib stocks w2 = (Inr d, w2)" if run: "run_script yf lib stocks w = (Inr d, w2)"
  proof -
    obtain res0 w0 where m: "main_loop yf lib stocks [] w = (res0, w0)"
      by (cases "main_loop yf lib stocks [] w")
    from run m obtain fs where fs: "res0 = Inr fs" "w0 = w2"
      by (cases res0) (auto simp: run_script_def split: if_splits sum.splits)
    from main_loop_replay[of yf lib stocks "[]" w fs w2 yf'] m fs
    have "main_loop yf' lib stocks [] w2 = (Inr fs, w2)" by simp
    with run m fs show ?thesis by (simp add: run_script_def split: if_splits sum.splits)
  qed
  show ?thesis using a b c d e by blast
qed

lemma served_fresh: "served yf fresh_world s = fetched yf s"
  by (simp add: served_def fresh_world_def)

subsection \<open>The sample provider\<close>

lemma series_full: "length xs = n \<Longrightarrow> series n xs = xs"
  by (simp add: series_def)

lemma length_sample [simp]:
  "length (sample_series f) = 20"
  "length (sample_bars s bars) = length bars"
  "length (sample_irows s bars) = length bars"
  by (simp_all add: sample_series_def sample_bars_def sample_irows_def)

lemma make_bars_sample:
  "make_bars s (map fst bars) (map (\<lambda>(t, c). Fin c) bars) (map (\<lambda>(t, c). Fin (c + 1)) bars)
     (map (\<lambda>(t, c). Fin (c - 1)) bars) (map (\<lambda>(t, c). Fin c) bars)
     (map (\<lambda>(t, c). Fin 1000) bars) =
   sample_bars s bars"
  by (induction bars) (auto simp: make_bars_def sample_bars_def sample_bar_def)

lemma fetched_sample_frame:
  assumes "yf s ''5d'' ''5m'' = Inr (sample_frame labels bars)"
    and "bars \<noteq> []"
    and "flatten_columns labels = field_labels"
  shows "fetched yf s = Inr (Some (sample_bars s bars))"
proof -
  have ne: "\<not> df_empty (sample_frame labels bars)"
    using assms(2,3)
    by (cases labels)
       (auto simp: df_empty_def sample_frame_def flatten_columns_def get_level_values0_def
          field_labels_def)
  have cols: "flatten_columns (rf_columns (sample_frame labels bars)) = field_labels"
    using assms(3) by (simp add: sample_frame_def)
  have data: "rf_data (sample_frame labels bars) =
      [map (\<lambda>(t, c). Fin c) bars, map (\<lambda>(t, c). Fin c) bars,
       map (\<lambda>(t, c). Fin (c + 1)) bars, map (\<lambda>(t, c). Fin (c - 1)) bars,
       map (\<lambda>(t, c). Fin c) bars, map (\<lambda>(t, c). Fin 1000) bars]"
    and idx: "rf_index (sample_frame labels bars) = map fst bars"
    by (simp_all add: sample_frame_def)
  show ?thesis
    unfolding fetched_def fetch_data_uncached_def yf_download_def
    by (simp add: assms(1) ne cols data idx Let_def field_labels_def getitem_def ebind_def
        make_bars_sample)
qed

lemma fetched_sample:
  "fetched sample_provider ''A'' = Inr (Some (sample_bars ''A'' (sample_series closes_A)))"
  "fetched sample_provider ''B'' = Inr None"
  "fetched sample_provider ''C'' = Inr (Some (sample_bars ''C'' (sample_series (\<lambda>i. 102))))"
  "fetched sample_provider ''D'' = Inr None"
  "fetched sample_provider ''E'' = Inr (Some (sample_bars ''E'' (sample_series (\<lambda>i. 103))))"
proof -
  have ne: "sample_series f \<noteq> []" for f
    by (simp add: sample_series_def)
  show "fetched sample_provider ''A'' = Inr (Some (sample_bars ''A'' (sample_series closes_A)))"
    by (rule fetched_sample_frame[where labels = "Index field_labels"])
       (simp_all add: sample_provider_def ne flatten_columns_def)
  show "fetched sample_provider ''C'' = Inr (Some (sample_bars ''C'' (sample_series (\<lambda>i. 102))))"
    by (rule fetched_sample_frame[where labels = "MultiIndex (map (\<lambda>l. (l, [''C''])) field_labels)"])
       (simp_all add: sample_provider_def ne flatten_columns_def get_level_values0_def comp_def)
  show "fetched sample_provider ''E'' = Inr (Some (sample_bars ''E'' (sample_series (\<lambda>i. 103))))"
    by (rule fetched_sample_frame[where labels = "Index field_labels"])
       (simp_all add: sample_provider_def ne flatten_columns_def)
  show "fetched sample_provider ''B'' = Inr None" "fetched sample_provider ''D'' = Inr None"
    by (rule fetched_empty[where df = empty_frame];
        simp add: sample_provider_def empty_frame_def df_empty_def)+
qed

lemma add_indicators_sample:
  assumes "20 \<le> length bars" and "\<forall>(t, c) \<in> set bars. c \<noteq> 0"
  shows "add_indicators sample_lib (sample_bars s bars) = Inr (sample_irows s bars)"
proof -
  let ?df = "sample_bars s bars"
  have cl: "map Close ?df = map (\<lambda>(t, c). Fin c) bars"
    by (simp add: sample_bars_def sample_bar_def comp_def split_def)
  have nz: "snd (bars ! i) \<noteq> 0" if "i < length bars" for i
    using assms(2) that by (auto simp: split_def dest: nth_mem)
  have "add_indicators sample_lib ?df =
      Inr (map (\<lambda>i. sample_irow s (fst (bars ! i)) (snd (bars ! i))) [0..<length bars])"
    using assms(1)
    by (simp add: add_indicators_def ADXIndicator_Inr ebind_def Let_def cl sample_lib_def
        series_full sample_irow_def)
       (auto simp: sample_bars_def sample_bar_def split_def band_width_def fsub_def nz)
  also have "map (\<lambda>i. sample_irow s (fst (bars ! i)) (snd (bars ! i))) [0..<length bars] =
      sample_irows s bars"
    by (rule nth_equalityI) (simp_all add: sample_irows_def split_def)
  finally show ?thesis .
qed

lemma sample_series_nonzero:
  "\<forall>i. f i \<noteq> 0 \<Longrightarrow> \<forall>(t, c) \<in> set (sample_series f). c \<noteq> 0"
  by (auto simp: sample_series_def)

lemma add_indicators_sample_series:
  "\<forall>i. f i \<noteq> 0 \<Longrightarrow>
   add_indicators sample_lib (sample_bars s (sample_series f)) = Inr (sample_irows s (sample_series f))"
  by (rule add_indicators_sample) (simp_all add: sample_series_nonzero)

lemmas add_indicators_samples =
  add_indicators_sample_series[where f = closes_A, simplified closes_A_def, simplified, folded closes_A_def]
  add_indicators_sample_series[where f = "\<lambda>i. 102", simplified]
  add_indicators_sample_series[where f = "\<lambda>i. 103", simplified]

lemma sample_irows_kept:
  assumes "r \<in> set (sample_irows s (sample_series f))"
  shows "zone (Datetime r) = None \<and> time_ge (dt_time (Datetime r)) time_10_00"
proof -
  from assms obtain i :: nat where i: "i < 20" and
    r: "r = sample_irow s (at_clock 0 10 (5 * int i) 0) (f i)"
    by (auto simp: sample_irows_def sample_series_def)
  have t: "Datetime r = at_clock 0 10 (5 * int i) 0" by (simp add: r sample_irow_def)
  have "epoch_ns (Datetime r) + utcoffset_ns (Datetime r) = (36000 + 300 * int i) * 1000000000"
    by (simp add: t)
  moreover have "0 \<le> (36000 + 300 * int i) * 1000000000" by simp
  moreover have "(36000 + 300 * int i) * 1000000000 < ns_per_day"
    using i by (simp add: ns_per_day_def)
  ultimately have "(epoch_ns (Datetime r) + utcoffset_ns (Datetime r)) mod ns_per_day =
      (36000 + 300 * int i) * 1000000000"
    by simp
  then have "time_ge (dt_time (Datetime r)) time_10_00"
    by (simp add: time_ge_10_iff)
  then show ?thesis by (simp add: t)
qed

lemma datetimelike_naive: "\<forall>t \<in> set ts. zone t = None \<Longrightarrow> datetimelike ts"
  by (cases ts) (auto simp: datetimelike_def list_all_iff)

lemma signal_composer_all_kept:
  assumes "\<forall>r \<in> set df. zone (Datetime r) = None \<and> time_ge (dt_time (Datetime r)) time_10_00"
  shows "datetimelike (map Datetime df)"
    and "signal_composer df = Inr (map (compose_row df) df)"
proof -
  show dl: "datetimelike (map Datetime df)"
    using assms by (intro datetimelike_naive) auto
  have "kept_rows df = df" using assms by (simp add: kept_rows_def)
  then show "signal_composer df = Inr (map (compose_row df) df)"
    using dl by (simp add: signal_composer_rows)
qed

lemma Stock_sample_irows: "map Stock (sample_irows s bars) = replicate (length bars) s"
  by (induction bars) (auto simp: sample_irows_def sample_irow_def)

text \<open>Five instruments of which B and D return an empty table.\<close>

theorem empty_instrument_dropped_witness:
  "served sample_provider fresh_world ''B'' = Inr None \<and>
   served sample_provider fresh_world ''D'' = Inr None \<and>
   (\<exists>frames.
      fst (main_loop sample_provider sample_lib [''A'', ''B'', ''C'', ''D'', ''E''] [] fresh_world) =
        Inr frames \<and>
      length frames = 3) \<and>
   fst (run_script sample_provider sample_lib [''A'', ''B'', ''C'', ''D'', ''E''] fresh_world) =
     fst (run_script sample_provider sample_lib [''A'', ''C'', ''E''] fresh_world) \<and>
   (\<exists>d. fst (run_script sample_provider sample_lib [''A'', ''B'', ''C'', ''D'', ''E''] fresh_world)
          = Inr d \<and>
        map Stock (table d) = replicate 20 ''A'' @ replicate 20 ''C'' @ replicate 20 ''E'')"
proof -
  let ?five = "[''A'', ''B'', ''C'', ''D'', ''E'']"
  let ?R = "sample_irows ''A'' (sample_series closes_A) @
            sample_irows ''C'' (sample_series (\<lambda>i. 102)) @
            sample_irows ''E'' (sample_series (\<lambda>i. 103))"
  have ok: "\<forall>s \<in> set ?five. \<forall>e. served sample_provider fresh_world s \<noteq> Inl e"
    by (simp add: served_fresh fetched_sample)
  have long: "\<forall>s \<in> set ?five. \<forall>d. served sample_provider fresh_world s = Inr (Some d) \<longrightarrow>
      20 \<le> length d"
    by (auto simp: served_fresh fetched_sample)
  note T = empty_instrument_dropped[OF ok long, where s = "''B''" and df = empty_frame
      and lib = sample_lib]
  have kept: "filter (\<lambda>s. served sample_provider fresh_world s \<noteq> Inr None) ?five =
      [''A'', ''C'', ''E'']"
    by (simp add: served_fresh fetched_sample)
  have b: "served sample_provider fresh_world ''B'' = Inr None"
    "served sample_provider fresh_world ''D'' = Inr None"
    by (simp_all add: served_fresh fetched_sample)
  have some: "\<not> (\<forall>s \<in> set ?five. served sample_provider fresh_world s = Inr None)"
    by (simp add: served_fresh fetched_sample)
  from T have same: "fst (run_script sample_provider sample_lib ?five fresh_world) =
     fst (run_script sample_provider sample_lib [''A'', ''C'', ''E''] fresh_world)"
    unfolding kept by blast
  from T obtain frames where
    fr: "fst (main_loop sample_provider sample_lib ?five [] fresh_world) = Inr frames"
    and en: "map Inr frames =
      map (add_indicators sample_lib) (batch_data sample_provider fresh_world ?five)"
    and len: "length frames =
      length (filter (\<lambda>s. served sample_provider fresh_world s \<noteq> Inr None) ?five)"
    and run: "if \<forall>s \<in> set ?five. served sample_provider fresh_world s = Inr None
      then fst (run_script sample_provider sample_lib ?five fresh_world) =
        Inl (Stop ''No data fetched from Yahoo Finance'')
      else fst (run_script sample_provider sample_lib ?five fresh_world) =
             (case signal_composer (concat frames) of
                Inl e \<Rightarrow> Inl e
              | Inr df \<Rightarrow> Inr \<lparr>table = df, call_view = call_df df, put_view = put_df df\<rparr>) \<and>
           (datetimelike (map Datetime (concat frames)) \<longrightarrow>
              (\<exists>d. fst (run_script sample_provider sample_lib ?five fresh_world) = Inr d \<and>
                   signal_composer (concat frames) = Inr (table d)))"
    by blast
  have l3: "length frames = 3" using len unfolding kept by simp
  have loop: "\<exists>frames.
      fst (main_loop sample_provider sample_lib ?five [] fresh_world) = Inr frames \<and>
      length frames = 3"
    using fr l3 by blast
  have "map Inr frames =
      [Inr (sample_irows ''A'' (sample_series closes_A)),
       Inr (sample_irows ''C'' (sample_series (\<lambda>i. 102))),
       (Inr (sample_irows ''E'' (sample_series (\<lambda>i. 103))) :: error + IRow list)]"
    unfolding en
    by (simp add: batch_data_def served_fresh fetched_sample add_indicators_samples)
  then have frames: "concat frames = ?R" by auto
  have all: "\<forall>r \<in> set ?R. zone (Datetime r) = None \<and> time_ge (dt_time (Datetime r)) time_10_00"
    using sample_irows_kept by auto
  have dl: "datetimelike (map Datetime (concat frames))"
    unfolding frames using all by (rule signal_composer_all_kept(1))
  have sc: "signal_composer (concat frames) = Inr (map (compose_row ?R) ?R)"
    unfolding frames using all by (rule signal_composer_all_kept(2))
  note run' = run[unfolded if_not_P[OF some]]
  from run'[THEN conjunct2] dl obtain d where
    d: "fst (run_script sample_provider sample_lib ?five fresh_world) = Inr d"
    and td: "signal_composer (concat frames) = Inr (table d)"
    by blast
  have "table d = map (compose_row ?R) ?R" using td sc by simp
  then have stk: "map Stock (table d) =
      replicate 20 ''A'' @ replicate 20 ''C'' @ replicate 20 ''E''"
    by (simp add: comp_def Stock_sample_irows[unfolded map_map comp_def]) 
  have run3: "\<exists>d. fst (run_script sample_provider sample_lib ?five fresh_world) = Inr d \<and>
        map Stock (table d) = replicate 20 ''A'' @ replicate 20 ''C'' @ replicate 20 ''E''"
    using d stk by blast
  show ?thesis by (intro conjI) (rule b loop same run3)+
qed

lemma fetched_failing:
  "fetched failing_provider ''Z'' = Inl (RemoteError ''connection reset'')"
  "fetched failing_provider ''A'' = fetched sample_provider ''A''"
  by (simp_all add: fetched_def fetch_data_uncached_def yf_download_def failing_provider_def)

text \<open>
  In a batch where A has data, an exception raised by the request for Z ends the run; and
  a batch of one instrument whose fetch returns an empty table halts at the guard after
  the loop.
\<close>

theorem batch_aborts_counterexample:
  "fst (run_script failing_provider sample_lib [''A'', ''Z'', ''C''] fresh_world) =
     Inl (RemoteError ''connection reset'') \<and>
   fst (run_script sample_provider sample_lib [''B''] fresh_world) =
     Inl (Stop ''No data fetched from Yahoo Finance'')"
  by (simp add: run_script_def fetch_data_eq fetched_sample fetched_failing fresh_world_def
      add_indicators_samples)

lemma fetched_short:
  "fetched short_provider ''A'' = fetched sample_provider ''A''"
  "fetched short_provider ''B'' = fetched sample_provider ''B''"
  "fetched short_provider ''S'' =
     Inr (Some (sample_bars ''S'' (take 19 (sample_series (\<lambda>i. 104)))))"
proof -
  show "fetched short_provider ''A'' = fetched sample_provider ''A''"
    "fetched short_provider ''B'' = fetched sample_provider ''B''"
    by (simp_all add: fetched_def fetch_data_uncached_def yf_download_def short_provider_def)
  have "take 19 (sample_series (\<lambda>i. 104)) \<noteq> []"
    by (simp add: sample_series_def)
  then show "fetched short_provider ''S'' =
     Inr (Some (sample_bars ''S'' (take 19 (sample_series (\<lambda>i. 104)))))"
    by (intro fetched_sample_frame[where labels = "Index field_labels"])
       (simp_all add: short_provider_def flatten_columns_def)
qed

text \<open>
  The bound of twenty bars is needed: in a batch where A has data and B is empty, the
  nineteen bars of S end the run in \<open>add_indicators\<close>.
\<close>

lemma short_table_aborts:
  "fst (run_script short_provider sample_lib [''A'', ''B'', ''S''] fresh_world) = Inl IndexError"
  by (simp add: run_script_def fetch_data_eq fetched_short fetched_sample fresh_world_def
      add_indicators_samples add_indicators_nineteen)

lemma signal_composer_A:
  "signal_composer sample_rows_A = Inr (map (compose_row sample_rows_A) sample_rows_A)"
  unfolding sample_rows_A_def
  by (rule signal_composer_all_kept(2)) (simp add: sample_irows_kept)

lemma sample_first_cycle:
  "run_script sample_provider sample_lib [''A''] fresh_world =
     (Inr \<lparr>table = map (compose_row sample_rows_A) sample_rows_A,
           call_view = call_df (map (compose_row sample_rows_A) sample_rows_A),
           put_view = put_df (map (compose_row sample_rows_A) sample_rows_A)\<rparr>,
      \<lparr>cache = [''A'' \<mapsto> Some (sample_bars ''A'' (sample_series closes_A))],
       remote_calls = [''A'']\<rparr>)"
proof -
  have ne: "sample_rows_A \<noteq> []"
    by (simp add: sample_rows_A_def sample_irows_def sample_series_def)
  show ?thesis
    by (simp add: run_script_def fetch_data_eq fetched_sample fresh_world_def
        add_indicators_samples sample_rows_A_def[symmetric] signal_composer_A ne)
qed

text \<open>
  After two refresh cycles on instrument A one remote request has been issued: the second
  cycle found the entry of the first.
\<close>

theorem second_cycle_no_fetch_counterexample:
  "cache (snd (run_script sample_provider sample_lib [''A''] fresh_world)) ''A'' \<noteq> None \<and>
   remote_calls (snd (run_script sample_provider sample_lib [''A'']
      (snd (run_script sample_provider sample_lib [''A''] fresh_world)))) = [''A'']"
proof -
  have ne: "sample_rows_A \<noteq> []"
    by (simp add: sample_rows_A_def sample_irows_def sample_series_def)
  show ?thesis
    unfolding sample_first_cycle
    by (simp add: run_script_def fetch_data_eq add_indicators_samples
        sample_rows_A_def[symmetric] signal_composer_A ne)
qed

text \<open>
  Two refresh cycles on instrument A, the second against a provider with other data.
\<close>

theorem cache_kept_across_cycles_witness:
  "\<exists>d w2. run_script sample_provider sample_lib [''A''] fresh_world = (Inr d, w2) \<and>
      run_script flat_provider sample_lib [''A''] w2 = (Inr d, w2) \<and>
      remote_calls w2 = [''A''] \<and>
      cache w2 ''A'' = Some (Some (sample_bars ''A'' (sample_series closes_A))) \<and>
      fetched flat_provider ''A'' \<noteq> fetched sample_provider ''A'' \<and>
      fetch_data flat_provider ''A'' w2 =
        (Inr (Some (sample_bars ''A'' (sample_series closes_A))), w2)"
proof -
  let ?T = "map (compose_row sample_rows_A) sample_rows_A"
  let ?d = "\<lparr>table = ?T, call_view = call_df ?T, put_view = put_df ?T\<rparr>"
  let ?bars = "Some (sample_bars ''A'' (sample_series closes_A))"
  let ?w2 = "\<lparr>cache = [''A'' \<mapsto> ?bars], remote_calls = [''A'']\<rparr>"
  note run = sample_first_cycle
  have c: "cache ?w2 ''A'' = Some ?bars" and r: "remote_calls ?w2 = [''A'']"
    by simp_all
  have again: "fetch_data flat_provider ''A'' ?w2 = (Inr ?bars, ?w2)"
    using cache_kept_across_cycles[where yf = flat_provider and s = "''A''" and w = ?w2
        and r = ?bars] c by blast
  have replay: "run_script flat_provider sample_lib [''A''] ?w2 = (Inr ?d, ?w2)"
    using cache_kept_across_cycles[where yf = sample_provider and yf' = flat_provider
        and lib = sample_lib and stocks = "[''A'']" and w = fresh_world and ?w2.0 = ?w2
        and d = ?d] run by blast
  have "fetched flat_provider ''A'' = Inr (Some (sample_bars ''A'' (sample_series (\<lambda>i. 102))))"
    by (rule fetched_sample_frame[where labels = "Index field_labels"])
       (simp_all add: flat_provider_def flatten_columns_def sample_series_def)
  moreover have "sample_bars ''A'' (sample_series (\<lambda>i. 102)) ! 0 \<noteq>
      sample_bars ''A'' (sample_series closes_A) ! 0"
    by (simp add: sample_bars_def sample_series_def sample_bar_def closes_A_def upt_conv_Cons)
  ultimately have other: "fetched flat_provider ''A'' \<noteq> fetched sample_provider ''A''"
    by (auto simp: fetched_sample)
  show ?thesis
    by (intro exI[of _ ?d] exI[of _ ?w2] conjI) (rule run replay r c other again)+
qed

subsection \<open>Column labels\<close>

lemma filter_label_absent:
  "c \<notin> set labels \<Longrightarrow> filter (\<lambda>(l, _). l = c) (zip labels cols) = []"
  by (auto simp: filter_empty_conv dest: set_zip_leftD)

lemma filter_label_distinct:
  "distinct labels \<Longrightarrow> j < length labels \<Longrightarrow> j < length cols \<Longrightarrow>
   filter (\<lambda>(l, _). l = labels ! j) (zip labels cols) = [(labels ! j, cols ! j)]"
proof (induction labels arbitrary: cols j)
  case Nil
  then show ?case by simp
next
  case (Cons l ls)
  then obtain c cs where cols: "cols = c # cs" by (cases cols) auto
  show ?case
  proof (cases j)
    case 0
    then show ?thesis using Cons.prems cols by (simp add: filter_label_absent)
  next
    case (Suc j')
    then have "l \<noteq> ls ! j'" using Cons.prems by auto
    then show ?thesis using Cons.IH[of j' cs] Cons.prems cols Suc by auto
  qed
qed

lemma getitem_distinct:
  "distinct labels \<Longrightarrow> j < length labels \<Longrightarrow> j < length cols \<Longrightarrow>
   getitem labels cols (labels ! j) = Inr (cols ! j)"
  by (simp add: getitem_def filter_label_distinct)

lemma fetched_flattened:
  assumes "yf1 s ''5d'' ''5m'' = Inr \<lparr>rf_index = idx, rf_columns = MultiIndex ls, rf_data = cols\<rparr>"
    and "yf2 s ''5d'' ''5m'' = Inr \<lparr>rf_index = idx, rf_columns = Index (map fst ls), rf_data = cols\<rparr>"
  shows "fetched yf1 s = fetched yf2 s"
  using assms
  by (simp add: fetched_def fetch_data_uncached_def yf_download_def df_empty_def
      flatten_columns_def get_level_values0_def)

text \<open>
  Claim C8. When the provider returns a multi-level column index,
  \<open>fetch_data\<close> replaces it by its level 0, so each field is found under its
  name, and everything computed from the result, the indicators included, equals what is
  computed from a download of the same data under the flat index of those names.
\<close>

theorem multiindex_flattened:
  assumes "yf1 s ''5d'' ''5m'' = Inr \<lparr>rf_index = idx, rf_columns = MultiIndex ls, rf_data = cols\<rparr>"
    and "yf2 s ''5d'' ''5m'' = Inr \<lparr>rf_index = idx, rf_columns = Index (map fst ls), rf_data = cols\<rparr>"
  shows "flatten_columns (MultiIndex ls) = map fst ls \<and>
     (distinct (map fst ls) \<and> j < length ls \<and> j < length cols \<longrightarrow>
        getitem (flatten_columns (MultiIndex ls)) cols (fst (ls ! j)) = Inr (cols ! j)) \<and>
     fst (fetch_data_uncached yf1 s w) = fst (fetch_data_uncached yf2 s w) \<and>
     (cache w s = None \<longrightarrow>
        fst (main_loop yf1 lib [s] [] w) = fst (main_loop yf2 lib [s] [] w))"
proof -
  have a: "flatten_columns (MultiIndex ls) = map fst ls"
    by (simp add: flatten_columns_def get_level_values0_def)
  have b: "distinct (map fst ls) \<and> j < length ls \<and> j < length cols \<longrightarrow>
        getitem (flatten_columns (MultiIndex ls)) cols (fst (ls ! j)) = Inr (cols ! j)"
    unfolding a using getitem_distinct[of "map fst ls" j cols] by auto
  have f: "fetched yf1 s = fetched yf2 s" using assms by (rule fetched_flattened)
  have c: "fst (fetch_data_uncached yf1 s w) = fst (fetch_data_uncached yf2 s w)"
    by (simp add: fetch_data_uncached_eq f)
  have d: "cache w s = None \<longrightarrow>
        fst (main_loop yf1 lib [s] [] w) = fst (main_loop yf2 lib [s] [] w)"
    by (simp add: fetch_data_eq f split: sum.splits option.splits)
  show ?thesis using a b c d by blast
qed

lemma fetched_flat_provider:
  "fetched flat_provider ''C'' = Inr (Some (sample_bars ''C'' (sample_series (\<lambda>i. 102))))"
  by (rule fetched_sample_frame[where labels = "Index field_labels"])
     (simp_all add: flat_provider_def flatten_columns_def sample_series_def)

text \<open>Instrument C under a two-level index and under the flat one.\<close>

theorem multiindex_flattened_witness:
  "sample_provider ''C'' ''5d'' ''5m'' =
     Inr (sample_frame (MultiIndex (map (\<lambda>l. (l, [''C''])) field_labels))
            (sample_series (\<lambda>i. 102))) \<and>
   flat_provider ''C'' ''5d'' ''5m'' =
     Inr (sample_frame (Index field_labels) (sample_series (\<lambda>i. 102))) \<and>
   fst (main_loop sample_provider sample_lib [''C''] [] fresh_world) =
     fst (main_loop flat_provider sample_lib [''C''] [] fresh_world) \<and>
   fst (main_loop flat_provider sample_lib [''C''] [] fresh_world) =
     Inr [sample_irows ''C'' (sample_series (\<lambda>i. 102))] \<and>
   getitem (flatten_columns (MultiIndex (map (\<lambda>l. (l, [''C''])) field_labels)))
     (rf_data (sample_frame (Index field_labels) (sample_series (\<lambda>i. 102)))) ''High'' =
     Inr (replicate 20 (Fin 103))"
proof -
  let ?ls = "map (\<lambda>l. (l, [''C''])) field_labels"
  let ?fr = "sample_frame (Index field_labels) (sample_series (\<lambda>i. 102))"
  have h1: "sample_provider ''C'' ''5d'' ''5m'' =
      Inr \<lparr>rf_index = rf_index ?fr, rf_columns = MultiIndex ?ls, rf_data = rf_data ?fr\<rparr>"
    by (simp add: sample_provider_def sample_frame_def)
  have h2: "flat_provider ''C'' ''5d'' ''5m'' =
      Inr \<lparr>rf_index = rf_index ?fr, rf_columns = Index (map fst ?ls), rf_data = rf_data ?fr\<rparr>"
    by (simp add: flat_provider_def sample_frame_def comp_def)
  note T = multiindex_flattened[where ?yf1.0 = sample_provider and ?yf2.0 = flat_provider
      and s = "''C''" and idx = "rf_index ?fr" and ls = ?ls and cols = "rf_data ?fr"
      and j = 2 and w = fresh_world and lib = sample_lib, OF h1 h2]
  have s1: "sample_provider ''C'' ''5d'' ''5m'' =
      Inr (sample_frame (MultiIndex ?ls) (sample_series (\<lambda>i. 102)))"
    by (simp add: sample_provider_def)
  have s2: "flat_provider ''C'' ''5d'' ''5m'' = Inr ?fr"
    by (simp add: flat_provider_def)
  have eq: "fst (main_loop sample_provider sample_lib [''C''] [] fresh_world) =
     fst (main_loop flat_provider sample_lib [''C''] [] fresh_world)"
    using T by (simp add: fresh_world_def)
  have val: "fst (main_loop flat_provider sample_lib [''C''] [] fresh_world) =
     Inr [sample_irows ''C'' (sample_series (\<lambda>i. 102))]"
    by (simp add: fetch_data_eq fetched_flat_provider fresh_world_def add_indicators_samples)
  have pre: "distinct (map fst ?ls) \<and> 2 < length ?ls \<and> 2 < length (rf_data ?fr)"
    by (simp add: field_labels_def sample_frame_def)
  have "getitem (flatten_columns (MultiIndex ?ls)) (rf_data ?fr) (fst (?ls ! 2)) = Inr (rf_data ?fr ! 2)"
    using T pre by blast
  moreover have "fst (?ls ! 2) = ''High''" by (simp add: field_labels_def)
  moreover have "rf_data ?fr ! 2 = replicate 20 (Fin 103)"
    by (simp add: sample_frame_def sample_series_def comp_def map_replicate_const)
  ultimately have g: "getitem (flatten_columns (MultiIndex ?ls)) (rf_data ?fr) ''High'' =
      Inr (replicate 20 (Fin 103))"
    by simp
  show ?thesis by (intro conjI) (rule s1 s2 eq val g)+
qed

subsection \<open>Views\<close>

lemma mset_insert_row: "mset (insert_row k x ys) = add_mset x (mset ys)"
  by (induction ys) auto

lemma mset_sort_values: "mset (sort_values k xs) = mset xs"
  by (induction xs) (auto simp: sort_values_def mset_insert_row)

lemma mask_select_and_not:
  "mask_select df (s_and (map P df) (s_not (map Q df))) = filter (\<lambda>r. P r \<and> \<not> Q r) df"
  by (induction df) (auto simp: mask_select_def s_and_def s_not_def)

lemma mset_call_df: "mset (call_df T) = mset (filter (\<lambda>r. CALL_ENTRY r \<and> \<not> CALL_EXIT r) T)"
  by (simp add: call_df_def mset_sort_values mask_select_and_not)

lemma mset_put_df: "mset (put_df T) = mset (filter (\<lambda>r. PUT_ENTRY r \<and> \<not> PUT_EXIT r) T)"
  by (simp add: put_df_def mset_sort_values mask_select_and_not)

text \<open>
  Claim C6. The CALL view of a run holds exactly the bars of the composed table with
  \<open>CALL_ENTRY\<close> true and \<open>CALL_EXIT\<close> false, and the PUT view
  those with \<open>PUT_ENTRY\<close> true and \<open>PUT_EXIT\<close> false (as
  multisets: the views are sorted). A bar of the table with entry and exit both true is in
  the table with its entry flag and not in the view.
\<close>

theorem active_views:
  "run_script yf lib stocks w = (Inr d, w') \<Longrightarrow>
     mset (call_view d) = mset (filter (\<lambda>r. CALL_ENTRY r \<and> \<not> CALL_EXIT r) (table d)) \<and>
     mset (put_view d) = mset (filter (\<lambda>r. PUT_ENTRY r \<and> \<not> PUT_EXIT r) (table d)) \<and>
     (\<forall>r \<in> set (table d). CALL_ENTRY r \<and> CALL_EXIT r \<longrightarrow> r \<notin> set (call_view d)) \<and>
     (\<forall>r \<in> set (table d). PUT_ENTRY r \<and> PUT_EXIT r \<longrightarrow> r \<notin> set (put_view d))"
proof -
  assume run: "run_script yf lib stocks w = (Inr d, w')"
  then have v: "call_view d = call_df (table d)" "put_view d = put_df (table d)"
    by (auto simp: run_script_def split: prod.splits sum.splits if_splits)
  have c: "set (call_df (table d)) = {r \<in> set (table d). CALL_ENTRY r \<and> \<not> CALL_EXIT r}"
    using mset_call_df[of "table d", THEN arg_cong, of set_mset] by simp
  have p: "set (put_df (table d)) = {r \<in> set (table d). PUT_ENTRY r \<and> \<not> PUT_EXIT r}"
    using mset_put_df[of "table d", THEN arg_cong, of set_mset] by simp
  show ?thesis unfolding v by (simp add: mset_call_df mset_put_df c p)
qed

lemma sample_irow_rules:
  "CALL_ENTRY_rule (sample_irow s t c) \<longleftrightarrow> 2 / c * 100 \<le> 35"
  "\<not> PUT_ENTRY_rule (sample_irow s t c)"
  "CALL_EXIT_rule (sample_irow s t c) \<longleftrightarrow> c < 100"
  by (simp_all add: CALL_ENTRY_rule_def PUT_ENTRY_rule_def CALL_EXIT_rule_def sample_irow_def
      fge_def fsub_def)

lemma nth_sample_rows_A:
  "i < 20 \<Longrightarrow> sample_rows_A ! i = sample_irow ''A'' (at_clock 0 10 (5 * int i) 0) (closes_A i)"
  by (simp add: sample_rows_A_def sample_irows_def sample_series_def)

text \<open>
  A run on instrument A: every bar is a call entry, and the second closes below its moving
  average.
\<close>

theorem active_views_witness:
  "\<exists>d w'. run_script sample_provider sample_lib [''A''] fresh_world = (Inr d, w') \<and>
      length (table d) = 20 \<and>
      CALL_ENTRY (table d ! 0) \<and> \<not> CALL_EXIT (table d ! 0) \<and>
      table d ! 0 \<in> set (call_view d) \<and>
      CALL_ENTRY (table d ! 1) \<and> CALL_EXIT (table d ! 1) \<and>
      table d ! 1 \<in> set (table d) \<and>
      table d ! 1 \<notin> set (call_view d) \<and>
      length (call_view d) = 19 \<and>
      put_view d = []"
proof -
  let ?T = "map (compose_row sample_rows_A) sample_rows_A"
  let ?d = "\<lparr>table = ?T, call_view = call_df ?T, put_view = put_df ?T\<rparr>"
  let ?w = "\<lparr>cache = [''A'' \<mapsto> Some (sample_bars ''A'' (sample_series closes_A))],
             remote_calls = [''A'']\<rparr>"
  note run = sample_first_cycle
  note V = active_views[OF run]
  have len: "length (table ?d) = 20" by (simp add: sample_rows_A_def)
  have flags: "CALL_ENTRY (?T ! i) = True \<and> CALL_EXIT (?T ! i) = (i = 1) \<and> \<not> PUT_ENTRY (?T ! i)"
    if "i < 20" for i
  proof -
    have "length sample_rows_A = 20" by (simp add: sample_rows_A_def)
    then have "?T ! i = compose_row sample_rows_A (sample_rows_A ! i)" using that by simp
    then show ?thesis
      by (simp add: nth_sample_rows_A[OF that] sample_irow_rules closes_A_def)
  qed
  have e0: "CALL_ENTRY (table ?d ! 0)" and x0: "\<not> CALL_EXIT (table ?d ! 0)"
    and e1: "CALL_ENTRY (table ?d ! 1)" and x1: "CALL_EXIT (table ?d ! 1)"
    using flags[of 0] flags[of 1] by simp_all
  have m0: "table ?d ! 0 \<in> set (table ?d)" and m1: "table ?d ! 1 \<in> set (table ?d)"
    by (rule nth_mem, simp add: sample_rows_A_def)+
  from V have cv: "mset (call_view ?d) =
      mset (filter (\<lambda>r. CALL_ENTRY r \<and> \<not> CALL_EXIT r) (table ?d))"
    and pv: "mset (put_view ?d) = mset (filter (\<lambda>r. PUT_ENTRY r \<and> \<not> PUT_EXIT r) (table ?d))"
    and out: "\<forall>r \<in> set (table ?d). CALL_ENTRY r \<and> CALL_EXIT r \<longrightarrow> r \<notin> set (call_view ?d)"
    by blast+
  have o1: "table ?d ! 1 \<notin> set (call_view ?d)" using out m1 e1 x1 by blast
  have "set (call_view ?d) = set (filter (\<lambda>r. CALL_ENTRY r \<and> \<not> CALL_EXIT r) (table ?d))"
    using cv by (rule mset_eq_setD)
  then have i0: "table ?d ! 0 \<in> set (call_view ?d)" using m0 e0 x0 by simp
  have T: "?T = map (\<lambda>i. ?T ! i) [0..<20]"
    by (rule nth_equalityI) (simp_all add: sample_rows_A_def)
  have "filter (\<lambda>r. CALL_ENTRY r \<and> \<not> CALL_EXIT r) ?T =
      map (\<lambda>i. ?T ! i) (filter (\<lambda>i. i \<noteq> 1) [0..<20])"
    by (subst T, unfold filter_map, rule arg_cong[where f = "map (\<lambda>i. ?T ! i)"],
        rule filter_cong) (use flags in auto)
  also have "length \<dots> = 19" by (simp add: upt_conv_Cons)
  finally have "length (filter (\<lambda>r. CALL_ENTRY r \<and> \<not> CALL_EXIT r) (table ?d)) = 19" by simp
  then have l19: "length (call_view ?d) = 19" using cv[THEN mset_eq_length] by simp
  have "filter (\<lambda>r. PUT_ENTRY r \<and> \<not> PUT_EXIT r) ?T = []"
    by (subst T) (use flags in \<open>auto simp del: nth_map simp: filter_empty_conv\<close>)
  then have pe: "put_view ?d = []" using pv by simp
  show ?thesis
    by (intro exI[of _ ?d] exI[of _ ?w] conjI) (rule run len e0 x0 i0 e1 x1 m1 o1 l19 pe)+
qed

end
